theory Spec2Isabelle
  imports Main "HOL-Library.Word"
begin

unbundle bit_operations_syntax

section \<open>The command registry and dispatch core of tclBasic.c\<close>

text \<open>
  A shallow embedding of the command life cycle (create, rename, delete, hide) and of
  the word dispatcher of \<^verbatim>\<open>generic/tclBasic.c\<close>. C \<^verbatim>\<open>int\<close> values are
  32-bit words, compared as signed numbers. Pointers to \<^verbatim>\<open>Command\<close> and
  \<^verbatim>\<open>Namespace\<close> structures are addresses (natural numbers); a pointer that may be
  \<^verbatim>\<open>NULL\<close> is an \<open>option\<close>. Strings are NUL-free byte lists.
\<close>

type_synonym cint = "32 word"
type_synonym cmd_ptr = nat
type_synonym ns_ptr = nat
type_synonym ClientData = nat
type_synonym Tcl_Obj = string

subsection \<open>Constants of the headers\<close>

text \<open>
  Modelled from the spec: the result codes (normal, error, return, break, continue) and
  the flag bits are declared in \<^verbatim>\<open>tcl.h\<close> and \<^verbatim>\<open>tclInt.h\<close>, which are not among
  the source files; the values below are those of the public header. The theorems use
  only that the codes are pairwise different and that each flag is a non-zero bit mask.
\<close>

definition TCL_OK :: cint where "TCL_OK = 0"
definition TCL_ERROR :: cint where "TCL_ERROR = 1"
definition TCL_RETURN :: cint where "TCL_RETURN = 2"
definition TCL_BREAK :: cint where "TCL_BREAK = 3"
definition TCL_CONTINUE :: cint where "TCL_CONTINUE = 4"

definition DELETED :: cint where "DELETED = 1"
definition ERR_ALREADY_LOGGED :: cint where "ERR_ALREADY_LOGGED = 4"
definition TCL_ALLOW_EXCEPTIONS :: cint where "TCL_ALLOW_EXCEPTIONS = 4"

definition CMD_IS_DELETED :: cint where "CMD_IS_DELETED = 0x1"
definition CMD_TRACE_ACTIVE :: cint where "CMD_TRACE_ACTIVE = 0x2"
definition CMD_HAS_EXEC_TRACES :: cint where "CMD_HAS_EXEC_TRACES = 0x4"

definition TCL_GLOBAL_ONLY :: cint where "TCL_GLOBAL_ONLY = 1"
definition TCL_LEAVE_ERR_MSG :: cint where "TCL_LEAVE_ERR_MSG = 0x200"
definition TCL_CREATE_NS_IF_UNKNOWN :: cint where "TCL_CREATE_NS_IF_UNKNOWN = 0x800"

definition TCL_TRACE_DESTROYED :: cint where "TCL_TRACE_DESTROYED = 0x80"
definition TCL_TRACE_RENAME :: cint where "TCL_TRACE_RENAME = 0x2000"
definition TCL_TRACE_DELETE :: cint where "TCL_TRACE_DELETE = 0x4000"
definition TCL_TRACE_ENTER_EXEC :: cint where "TCL_TRACE_ENTER_EXEC = 1"
definition TCL_TRACE_LEAVE_EXEC :: cint where "TCL_TRACE_LEAVE_EXEC = 2"

definition TCL_EVAL_GLOBAL :: cint where "TCL_EVAL_GLOBAL = 0x20000"
definition TCL_EVAL_INVOKE :: cint where "TCL_EVAL_INVOKE = 0x80000"

definition TCL_TOKEN_SIMPLE_WORD :: cint where "TCL_TOKEN_SIMPLE_WORD = 2"
definition TCL_TOKEN_TEXT :: cint where "TCL_TOKEN_TEXT = 4"
definition TCL_TOKEN_EXPAND_WORD :: cint where "TCL_TOKEN_EXPAND_WORD = 256"

subsection \<open>Data model\<close>

text \<open>
  A hash entry is named by its table and its key. The tables that hold commands are the
  \<^verbatim>\<open>cmdTable\<close> of a namespace and the interpreter's hidden-command table.
\<close>

datatype table_ref = NsCmdTable ns_ptr | HiddenCmdTable

type_synonym Tcl_HashEntry = "table_ref \<times> string"

text \<open>Function pointers: the two wrappers that tclBasic.c compares against, and others.\<close>

datatype objproc = TclInvokeStringCommand | ObjCmdProc nat

datatype cmdproc = TclInvokeObjectCommand | CmdProc nat

record CommandTrace =
  traceProc :: nat
  traceClientData :: ClientData
  traceFlags :: cint
  traceRefCount :: cint

text \<open>
  The \<^verbatim>\<open>Command\<close> structure. \<open>importRefPtr\<close> is the chain of \<^verbatim>\<open>ImportRef\<close>
  records, each given by its \<^verbatim>\<open>importedCmdPtr\<close>; \<open>tracePtr\<close> is the chain of
  command traces. An empty list is the \<^verbatim>\<open>NULL\<close> chain.
\<close>

record Command =
  hPtr :: "Tcl_HashEntry option"
  nsPtr :: ns_ptr
  refCount :: cint
  cmdEpoch :: cint
  compileProc :: "nat option"
  objProc :: "objproc option"
  objClientData :: ClientData
  proc :: "cmdproc option"
  clientData :: ClientData
  deleteProc :: "nat option"
  deleteData :: ClientData
  flags :: cint
  importRefPtr :: "cmd_ptr list"
  tracePtr :: "CommandTrace list"

text \<open>
  The log lists, in order, the callbacks that the modelled code itself invokes, the
  structures it frees and the name resolutions it asks for; \<open>EvPass\<close> marks each
  arrival at the label \<^verbatim>\<open>reparseBecauseOfTraces\<close>, and the events of a nested
  invocation of the dispatcher are wrapped in \<open>EvNested\<close>. It is instrumentation: no
  modelled function reads it, and a callback cannot alter it.
\<close>

datatype event =
    EvTraceProc nat ClientData string "string option" cint
  | EvDeleteProc nat ClientData
  | EvFreeCommand cmd_ptr
  | EvFreeTrace nat ClientData
  | EvPass
  | EvGetCommand Tcl_Obj
  | EvInterpTraces cint
  | EvExecutionTraces cmd_ptr cint
  | EvObjProc cmd_ptr "Tcl_Obj list"
  | EvAsyncInvoke
  | EvLimitCheck
  | EvNested "event list"

record Trace =
  level :: cint

text \<open>
  The \<^verbatim>\<open>Interp\<close> structure, with the heap of \<^verbatim>\<open>Command\<close> structures
  (\<open>cmdHeap\<close>), the command table of each namespace (\<open>cmdTable\<close>), the
  \<^verbatim>\<open>fullName\<close> of each namespace and the \<^verbatim>\<open>realCmdPtr\<close> field of the
  \<^verbatim>\<open>ImportedCmdData\<close> structure at each address. \<open>ext\<close> is the state of the
  collaborators that tclBasic.c never reads (namespace tree, lookup caches).
\<close>

record 'x Interp =
  result :: string
  errorInfo :: "string option"
  errorCode :: "string list option"
  errorLine :: cint
  globalNsPtr :: ns_ptr
  hiddenCmdTablePtr :: "(string \<rightharpoonup> cmd_ptr) option"
  numLevels :: cint
  maxNestingDepth :: cint
  interpFlags :: cint
  evalFlags :: cint
  compileEpoch :: cint
  cmdCount :: cint
  interpTracePtr :: "Trace list"
  varFramePtr :: "nat option"
  ensembleRewrite_sourceObjs :: "nat option"
  cmdHeap :: "cmd_ptr \<Rightarrow> Command"
  cmdTable :: "ns_ptr \<Rightarrow> (string \<rightharpoonup> cmd_ptr)"
  nsFullName :: "ns_ptr \<Rightarrow> string"
  realCmdPtr :: "ClientData \<Rightarrow> cmd_ptr"
  evlog :: "event list"
  ext :: 'x

subsection \<open>Parsed commands\<close>

text \<open>
  A token of the parser. The bytes \<^verbatim>\<open>start\<close> .. \<^verbatim>\<open>start + size\<close> of the script that
  the token covers are kept as a string. The token of a word is followed in the token
  array by its \<^verbatim>\<open>numComponents\<close> component tokens. Of \<^verbatim>\<open>Tcl_Parse\<close> the model keeps
  the number of words, the token array and the text of the command
  (\<^verbatim>\<open>commandStart\<close>, \<^verbatim>\<open>commandSize\<close>). The number of words is never negative.
\<close>

record Tcl_Token =
  tokenType :: cint
  tokenText :: string
  numComponents :: nat

record Tcl_Parse =
  numWords :: nat
  tokenPtr :: "Tcl_Token list"
  commandStart :: string
  commandSize :: nat

subsection \<open>The collaborators\<close>

text \<open>
  Functions that tclBasic.c calls and that live in other files (name resolution in
  tclNamesp.c, alias checking in tclInterp.c, execution traces in tclTrace.c, limits,
  asynchronous handlers, the allocator) and the callbacks stored in commands and traces
  are parameters of the model. A callback is an arbitrary transformer of the interpreter
  state. Name resolution is a query: it returns what it found and the text it leaves in
  the interpreter result.
\<close>

record 'x Env =
  Tcl_FindCommand :: "'x Interp \<Rightarrow> string \<Rightarrow> cint \<Rightarrow> cmd_ptr option \<times> string"
  Tcl_GetCommandFromObj :: "'x Interp \<Rightarrow> Tcl_Obj \<Rightarrow> cmd_ptr option"
  TclGetNamespaceForQualName ::
    "'x Interp \<Rightarrow> string \<Rightarrow> cint \<Rightarrow> 'x \<times> ns_ptr option \<times> string option"
  TclInvalidateNsCmdLookup :: "ns_ptr \<Rightarrow> 'x \<Rightarrow> 'x"
  TclInvalidateNsPath :: "ns_ptr \<Rightarrow> 'x \<Rightarrow> 'x"
  TclResetShadowedCmdRefs :: "'x Interp \<Rightarrow> cmd_ptr \<Rightarrow> 'x"
  TclPreventAliasLoop :: "'x Interp \<Rightarrow> cmd_ptr \<Rightarrow> cint \<times> string"
  Tcl_ResetResult_ext :: "'x \<Rightarrow> 'x"
  ckalloc_Command :: "'x Interp \<Rightarrow> cmd_ptr"
  callDeleteProc :: "nat \<Rightarrow> ClientData \<Rightarrow> 'x Interp \<Rightarrow> 'x Interp"
  callTraceProc ::
    "nat \<Rightarrow> ClientData \<Rightarrow> string \<Rightarrow> string option \<Rightarrow> cint \<Rightarrow> 'x Interp \<Rightarrow> 'x Interp"
  callObjProc ::
    "objproc option \<Rightarrow> ClientData \<Rightarrow> Tcl_Obj list \<Rightarrow> 'x Interp \<Rightarrow> cint \<times> 'x Interp"
  TclCheckInterpTraces ::
    "string \<Rightarrow> cmd_ptr \<Rightarrow> cint \<Rightarrow> cint \<Rightarrow> Tcl_Obj list \<Rightarrow> 'x Interp \<Rightarrow> cint \<times> 'x Interp"
  TclCheckExecutionTraces ::
    "string \<Rightarrow> cmd_ptr \<Rightarrow> cint \<Rightarrow> cint \<Rightarrow> Tcl_Obj list \<Rightarrow> 'x Interp \<Rightarrow> cint \<times> 'x Interp"
  Tcl_LimitExceeded :: "'x Interp \<Rightarrow> bool"
  Tcl_AsyncReady :: "'x Interp \<Rightarrow> bool"
  Tcl_AsyncInvoke :: "cint \<Rightarrow> 'x Interp \<Rightarrow> cint \<times> 'x Interp"
  Tcl_LimitReady :: "'x Interp \<Rightarrow> bool"
  Tcl_LimitCheck :: "'x Interp \<Rightarrow> cint \<times> 'x Interp"
  Tcl_IsEnsemble :: "'x Interp \<Rightarrow> cmd_ptr \<Rightarrow> bool"
  TclpCheckStackSpace :: cint
  TclUpdateReturnInfo :: "'x Interp \<Rightarrow> cint \<times> 'x Interp"
  Tcl_DStringAppendElement :: "string \<Rightarrow> string \<Rightarrow> string"
  TclAppendLimitedToObj :: "string \<Rightarrow> string \<Rightarrow> nat \<Rightarrow> string"
  TclSubstTokens :: "Tcl_Token list \<Rightarrow> 'x Interp \<Rightarrow> cint \<times> 'x Interp"
  Tcl_ListObjGetElements :: "Tcl_Obj \<Rightarrow> Tcl_Obj list option"
  listErrorMessage :: "Tcl_Obj \<Rightarrow> string"

subsection \<open>Results, hash tables, strings\<close>

definition Tcl_AppendResult :: "string \<Rightarrow> 'x Interp \<Rightarrow> 'x Interp" where
  "Tcl_AppendResult s iPtr = iPtr\<lparr>result := result iPtr @ s\<rparr>"

definition Tcl_SetResult :: "string \<Rightarrow> 'x Interp \<Rightarrow> 'x Interp" where
  "Tcl_SetResult s iPtr = iPtr\<lparr>result := s\<rparr>"

text \<open>
  Modelled from the spec: \<^verbatim>\<open>Tcl_ResetResult\<close> and \<^verbatim>\<open>Tcl_SetErrorCode\<close>
  (tclResult.c) are not among the source files. \<^verbatim>\<open>Tcl_ResetResult\<close> empties the
  interpreter result and clears the error state (\<^verbatim>\<open>errorInfo\<close>, \<^verbatim>\<open>errorCode\<close>,
  the flag \<^verbatim>\<open>ERR_ALREADY_LOGGED\<close>); what else it resets belongs to the collaborators'
  state. The theorems use only that the result is emptied and that the rest of the
  interpreter is untouched.
\<close>

definition Tcl_ResetResult :: "'x Env \<Rightarrow> 'x Interp \<Rightarrow> 'x Interp" where
  "Tcl_ResetResult env iPtr =
     iPtr\<lparr>result := [], errorInfo := None, errorCode := None,
          interpFlags := interpFlags iPtr AND NOT ERR_ALREADY_LOGGED,
          ext := Tcl_ResetResult_ext env (ext iPtr)\<rparr>"

definition Tcl_SetErrorCode :: "string list \<Rightarrow> 'x Interp \<Rightarrow> 'x Interp" where
  "Tcl_SetErrorCode elems iPtr = iPtr\<lparr>errorCode := Some elems\<rparr>"

text \<open>
  A collaborator that returns a completion code runs on the state; the log is kept by the
  caller.
\<close>

definition call_ext :: "('x Interp \<Rightarrow> cint \<times> 'x Interp) \<Rightarrow> 'x Interp \<Rightarrow> cint \<times> 'x Interp" where
  "call_ext f iPtr = (case f iPtr of (code, iPtr') \<Rightarrow> (code, iPtr'\<lparr>evlog := evlog iPtr\<rparr>))"

definition upd_cmd :: "cmd_ptr \<Rightarrow> (Command \<Rightarrow> Command) \<Rightarrow> 'x Interp \<Rightarrow> 'x Interp" where
  "upd_cmd p f iPtr = iPtr\<lparr>cmdHeap := (cmdHeap iPtr)(p := f (cmdHeap iPtr p))\<rparr>"

definition log_event :: "event \<Rightarrow> 'x Interp \<Rightarrow> 'x Interp" where
  "log_event e iPtr = iPtr\<lparr>evlog := evlog iPtr @ [e]\<rparr>"

text \<open>A callback runs on the state; the log is kept and extended by the caller.\<close>

definition callback :: "event \<Rightarrow> ('x Interp \<Rightarrow> 'x Interp) \<Rightarrow> 'x Interp \<Rightarrow> 'x Interp" where
  "callback e f iPtr = (f iPtr)\<lparr>evlog := evlog iPtr @ [e]\<rparr>"

definition callback_code ::
  "event \<Rightarrow> ('x Interp \<Rightarrow> cint \<times> 'x Interp) \<Rightarrow> 'x Interp \<Rightarrow> cint \<times> 'x Interp" where
  "callback_code e f iPtr =
     (case f iPtr of (code, iPtr') \<Rightarrow> (code, iPtr'\<lparr>evlog := evlog iPtr @ [e]\<rparr>))"

definition hidden_entries :: "'x Interp \<Rightarrow> (string \<rightharpoonup> cmd_ptr)" where
  "hidden_entries iPtr = (case hiddenCmdTablePtr iPtr of None \<Rightarrow> Map.empty | Some t \<Rightarrow> t)"

definition Tcl_FindHashEntry :: "table_ref \<Rightarrow> string \<Rightarrow> 'x Interp \<Rightarrow> cmd_ptr option" where
  "Tcl_FindHashEntry t key iPtr =
     (case t of NsCmdTable ns \<Rightarrow> cmdTable iPtr ns key | HiddenCmdTable \<Rightarrow> hidden_entries iPtr key)"

definition Tcl_DeleteHashEntry :: "Tcl_HashEntry \<Rightarrow> 'x Interp \<Rightarrow> 'x Interp" where
  "Tcl_DeleteHashEntry h iPtr =
     (case h of
        (NsCmdTable ns, key) \<Rightarrow>
          iPtr\<lparr>cmdTable := (cmdTable iPtr)(ns := (cmdTable iPtr ns)(key := None))\<rparr>
      | (HiddenCmdTable, key) \<Rightarrow>
          (case hiddenCmdTablePtr iPtr of
             None \<Rightarrow> iPtr
           | Some t \<Rightarrow> iPtr\<lparr>hiddenCmdTablePtr := Some (t(key := None))\<rparr>))"

text \<open>
  \<^verbatim>\<open>Tcl_CreateHashEntry\<close> followed by \<^verbatim>\<open>Tcl_SetHashValue\<close>: the entry appears in
  the table when its value is stored. The source tests the flag \<^verbatim>\<open>new\<close> where it
  creates the entry; the model tests there whether the key is absent.
\<close>

definition Tcl_SetHashValue :: "Tcl_HashEntry \<Rightarrow> cmd_ptr \<Rightarrow> 'x Interp \<Rightarrow> 'x Interp" where
  "Tcl_SetHashValue h v iPtr =
     (case h of
        (NsCmdTable ns, key) \<Rightarrow>
          iPtr\<lparr>cmdTable := (cmdTable iPtr)(ns := (cmdTable iPtr ns)(key \<mapsto> v))\<rparr>
      | (HiddenCmdTable, key) \<Rightarrow>
          iPtr\<lparr>hiddenCmdTablePtr := Some ((hidden_entries iPtr)(key \<mapsto> v))\<rparr>)"

text \<open>C's \<^verbatim>\<open>strstr\<close>: the suffix of the haystack at the first occurrence, or \<^verbatim>\<open>NULL\<close>.\<close>

fun strstr :: "string \<Rightarrow> string \<Rightarrow> string option" where
  "strstr [] needle = (if needle = [] then Some [] else None)"
| "strstr (c # cs) needle =
     (if take (length needle) (c # cs) = needle then Some (c # cs) else strstr cs needle)"

subsection \<open>Tcl_SetRecursionLimit\<close>

definition Tcl_SetRecursionLimit :: "cint \<Rightarrow> 'x Interp \<Rightarrow> cint \<times> 'x Interp" where
  "Tcl_SetRecursionLimit depth iPtr =
     (let old = maxNestingDepth iPtr;
          iPtr1 = (if 0 <s depth then iPtr\<lparr>maxNestingDepth := depth\<rparr> else iPtr)
      in (old, iPtr1))"

subsection \<open>Command names\<close>

definition Tcl_GetCommandFullName :: "'x Interp \<Rightarrow> cmd_ptr \<Rightarrow> string" where
  "Tcl_GetCommandFullName iPtr cmdPtr =
     (let c = cmdHeap iPtr cmdPtr
      in nsFullName iPtr (nsPtr c)
         @ (if nsPtr c \<noteq> globalNsPtr iPtr then ''::'' else [])
         @ (case hPtr c of None \<Rightarrow> [] | Some (t, key) \<Rightarrow> key))"

subsection \<open>TclCleanupCommand, CallCommandTraces\<close>

definition TclCleanupCommand :: "cmd_ptr \<Rightarrow> 'x Interp \<Rightarrow> 'x Interp" where
  "TclCleanupCommand cmdPtr iPtr =
     (let iPtr1 = upd_cmd cmdPtr (\<lambda>c. c\<lparr>refCount := refCount c - 1\<rparr>) iPtr
      in if refCount (cmdHeap iPtr1 cmdPtr) \<le>s 0
         then log_event (EvFreeCommand cmdPtr) iPtr1 else iPtr1)"

text \<open>
  The loop of \<^verbatim>\<open>CallCommandTraces\<close> over the trace chain. The chain is walked as it
  is read when the loop starts (the source keeps the next trace in a record that
  \<^verbatim>\<open>Tcl_UntraceCommand\<close>, not among the sources, may redirect when a callback removes
  that trace). The old name is computed once, before the first callback that needs it.
\<close>

fun CallCommandTraces_loop ::
  "'x Env \<Rightarrow> cmd_ptr \<Rightarrow> string option \<Rightarrow> string option \<Rightarrow> cint \<Rightarrow> CommandTrace list
     \<Rightarrow> 'x Interp \<Rightarrow> 'x Interp" where
  "CallCommandTraces_loop env cmdPtr oldName newName fl [] iPtr = iPtr"
| "CallCommandTraces_loop env cmdPtr oldName newName fl (t # ts) iPtr =
     (if traceFlags t AND fl = 0 then CallCommandTraces_loop env cmdPtr oldName newName fl ts iPtr
      else
        let iPtr1 = upd_cmd cmdPtr (\<lambda>c. c\<lparr>flags := flags c OR traceFlags t\<rparr>) iPtr;
            old = (case oldName of None \<Rightarrow> Tcl_GetCommandFullName iPtr1 cmdPtr | Some n \<Rightarrow> n);
            iPtr2 = callback (EvTraceProc (traceProc t) (traceClientData t) old newName fl)
                      (callTraceProc env (traceProc t) (traceClientData t) old newName fl) iPtr1;
            iPtr3 = upd_cmd cmdPtr (\<lambda>c. c\<lparr>flags := flags c AND NOT (traceFlags t)\<rparr>) iPtr2;
            iPtr4 = (if traceRefCount t + 1 - 1 \<le>s 0
                     then log_event (EvFreeTrace (traceProc t) (traceClientData t)) iPtr3
                     else iPtr3)
        in CallCommandTraces_loop env cmdPtr (Some old) newName fl ts iPtr4)"

definition CallCommandTraces ::
  "'x Env \<Rightarrow> cmd_ptr \<Rightarrow> string option \<Rightarrow> string option \<Rightarrow> cint \<Rightarrow> 'x Interp \<Rightarrow> 'x Interp" where
  "CallCommandTraces env cmdPtr oldName newName fl iPtr =
     (let c = cmdHeap iPtr cmdPtr;
          active = (flags c AND CMD_TRACE_ACTIVE \<noteq> 0);
          fl1 = (if active \<and> flags c AND TCL_TRACE_RENAME \<noteq> 0
                 then fl AND NOT TCL_TRACE_RENAME else fl)
      in if active \<and> fl1 = 0 then iPtr
         else
           let iPtr1 = upd_cmd cmdPtr
                 (\<lambda>c. c\<lparr>refCount := refCount c + 1, flags := flags c OR CMD_TRACE_ACTIVE\<rparr>) iPtr;
               fl2 = (if fl1 AND TCL_TRACE_DELETE \<noteq> 0 then fl1 OR TCL_TRACE_DESTROYED else fl1);
               iPtr2 = CallCommandTraces_loop env cmdPtr oldName newName fl2
                         (tracePtr (cmdHeap iPtr1 cmdPtr)) iPtr1
           in upd_cmd cmdPtr
                (\<lambda>c. c\<lparr>refCount := refCount c - 1, flags := flags c AND NOT CMD_TRACE_ACTIVE\<rparr>)
                iPtr2)"

subsection \<open>Tcl_DeleteCommandFromToken\<close>

text \<open>The loop that drops the traces of a command being deleted.\<close>

fun free_traces :: "CommandTrace list \<Rightarrow> 'x Interp \<Rightarrow> 'x Interp" where
  "free_traces [] iPtr = iPtr"
| "free_traces (t # ts) iPtr =
     free_traces ts
       (if traceRefCount t - 1 \<le>s 0
        then log_event (EvFreeTrace (traceProc t) (traceClientData t)) iPtr else iPtr)"

text \<open>A loop over a chain whose body may fail to return.\<close>

fun for_each :: "('a \<Rightarrow> 's \<Rightarrow> 's option) \<Rightarrow> 'a list \<Rightarrow> 's \<Rightarrow> 's option" where
  "for_each f [] s = Some s"
| "for_each f (x # xs) s = (case f x s of None \<Rightarrow> None | Some s' \<Rightarrow> for_each f xs s')"

text \<open>
  \<^verbatim>\<open>Tcl_DeleteCommandFromToken\<close> calls itself on every imported command, and those on
  theirs. The first argument bounds the depth of these calls; \<open>None\<close> is a run that
  needs more. The C function always returns 0, so the model returns the state only.
\<close>

fun Tcl_DeleteCommandFromToken ::
  "nat \<Rightarrow> 'x Env \<Rightarrow> cmd_ptr \<Rightarrow> 'x Interp \<Rightarrow> 'x Interp option" where
  "Tcl_DeleteCommandFromToken 0 env cmdPtr iPtr = None"
| "Tcl_DeleteCommandFromToken (Suc n) env cmdPtr iPtr =
     (if flags (cmdHeap iPtr cmdPtr) AND CMD_IS_DELETED \<noteq> 0 then
        (case hPtr (cmdHeap iPtr cmdPtr) of
           None \<Rightarrow> Some iPtr
         | Some h \<Rightarrow> Some (upd_cmd cmdPtr (\<lambda>c. c\<lparr>hPtr := None\<rparr>) (Tcl_DeleteHashEntry h iPtr)))
      else
        let iPtr1 = upd_cmd cmdPtr (\<lambda>c. c\<lparr>flags := flags c OR CMD_IS_DELETED\<rparr>) iPtr;
            iPtr2 = (if tracePtr (cmdHeap iPtr1 cmdPtr) \<noteq> [] then
                       let j = CallCommandTraces env cmdPtr None None TCL_TRACE_DELETE iPtr1;
                           j1 = free_traces (tracePtr (cmdHeap j cmdPtr)) j
                       in upd_cmd cmdPtr (\<lambda>c. c\<lparr>tracePtr := []\<rparr>) j1
                     else iPtr1);
            iPtr3 = iPtr2\<lparr>ext :=
                      TclInvalidateNsCmdLookup env (nsPtr (cmdHeap iPtr2 cmdPtr)) (ext iPtr2)\<rparr>;
            iPtr4 = (if compileProc (cmdHeap iPtr3 cmdPtr) \<noteq> None
                     then iPtr3\<lparr>compileEpoch := compileEpoch iPtr3 + 1\<rparr> else iPtr3);
            iPtr5 = (case deleteProc (cmdHeap iPtr4 cmdPtr) of
                       None \<Rightarrow> iPtr4
                     | Some f \<Rightarrow>
                         callback (EvDeleteProc f (deleteData (cmdHeap iPtr4 cmdPtr)))
                           (callDeleteProc env f (deleteData (cmdHeap iPtr4 cmdPtr))) iPtr4);
            iPtr6 = upd_cmd cmdPtr (\<lambda>c. c\<lparr>cmdEpoch := cmdEpoch c + 1\<rparr>) iPtr5
        in (case for_each (Tcl_DeleteCommandFromToken n env)
                   (importRefPtr (cmdHeap iPtr6 cmdPtr)) iPtr6 of
              None \<Rightarrow> None
            | Some iPtr7 \<Rightarrow>
                let iPtr8 = (case hPtr (cmdHeap iPtr7 cmdPtr) of
                               None \<Rightarrow> iPtr7
                             | Some h \<Rightarrow> Tcl_DeleteHashEntry h iPtr7);
                    iPtr9 = upd_cmd cmdPtr (\<lambda>c. c\<lparr>objProc := None\<rparr>) iPtr8
                in Some (TclCleanupCommand cmdPtr iPtr9)))"

subsection \<open>Tcl_HideCommand\<close>

text \<open>The hidden-command table is allocated and initialised when it is first needed.\<close>

definition Tcl_InitHashTable_hidden :: "'x Interp \<Rightarrow> 'x Interp" where
  "Tcl_InitHashTable_hidden iPtr =
     (case hiddenCmdTablePtr iPtr of
        None \<Rightarrow> iPtr\<lparr>hiddenCmdTablePtr := Some Map.empty\<rparr>
      | Some t \<Rightarrow> iPtr)"

definition Tcl_HideCommand ::
  "'x Env \<Rightarrow> string \<Rightarrow> string \<Rightarrow> 'x Interp \<Rightarrow> cint \<times> 'x Interp" where
  "Tcl_HideCommand env cmdName hiddenCmdToken iPtr =
     (if interpFlags iPtr AND DELETED \<noteq> 0 then (TCL_ERROR, iPtr)
      else if strstr hiddenCmdToken ''::'' \<noteq> None then
        (TCL_ERROR,
         Tcl_AppendResult
           (''cannot use namespace qualifiers in hidden command'' @ '' token (rename)'') iPtr)
      else
        (case Tcl_FindCommand env iPtr cmdName (TCL_LEAVE_ERR_MSG OR TCL_GLOBAL_ONLY) of
           (None, r) \<Rightarrow> (TCL_ERROR, iPtr\<lparr>result := r\<rparr>)
         | (Some cmdPtr, r) \<Rightarrow>
             let iPtr0 = iPtr\<lparr>result := r\<rparr>
             in if nsPtr (cmdHeap iPtr0 cmdPtr) \<noteq> globalNsPtr iPtr0 then
                  (TCL_ERROR,
                   Tcl_AppendResult
                     (''can only hide global namespace commands'' @ '' (use rename then hide)'')
                     iPtr0)
                else
                  let iPtr1 = Tcl_InitHashTable_hidden iPtr0;
                      h = (HiddenCmdTable, hiddenCmdToken)
                  in if Tcl_FindHashEntry HiddenCmdTable hiddenCmdToken iPtr1 \<noteq> None then
                       (TCL_ERROR,
                        Tcl_AppendResult
                          (''hidden command named '' @ [CHR 0x22] @ hiddenCmdToken
                             @ [CHR 0x22] @ '' already exists'') iPtr1)
                     else
                       let iPtr2 = (case hPtr (cmdHeap iPtr1 cmdPtr) of
                                      None \<Rightarrow> iPtr1
                                    | Some old \<Rightarrow>
                                        upd_cmd cmdPtr
                                          (\<lambda>c. c\<lparr>hPtr := None, cmdEpoch := cmdEpoch c + 1\<rparr>)
                                          (Tcl_DeleteHashEntry old iPtr1));
                           iPtr3 = iPtr2\<lparr>ext := TclInvalidateNsCmdLookup env
                                              (nsPtr (cmdHeap iPtr2 cmdPtr)) (ext iPtr2)\<rparr>;
                           iPtr4 = Tcl_SetHashValue h cmdPtr
                                     (upd_cmd cmdPtr (\<lambda>c. c\<lparr>hPtr := Some h\<rparr>) iPtr3);
                           iPtr5 = (if compileProc (cmdHeap iPtr4 cmdPtr) \<noteq> None
                                    then iPtr4\<lparr>compileEpoch := compileEpoch iPtr4 + 1\<rparr>
                                    else iPtr4)
                       in (TCL_OK, iPtr5)))"

text \<open>The conjunction of the guards that \<^verbatim>\<open>Tcl_HideCommand\<close> checks before it moves a command.\<close>

definition hide_ok :: "'x Env \<Rightarrow> string \<Rightarrow> string \<Rightarrow> 'x Interp \<Rightarrow> bool" where
  "hide_ok env cmdName tok iPtr \<longleftrightarrow>
     interpFlags iPtr AND DELETED = 0 \<and> strstr tok ''::'' = None
     \<and> (\<exists>p. fst (Tcl_FindCommand env iPtr cmdName (TCL_LEAVE_ERR_MSG OR TCL_GLOBAL_ONLY)) = Some p
             \<and> nsPtr (cmdHeap iPtr p) = globalNsPtr iPtr)
     \<and> hidden_entries iPtr tok = None"

subsection \<open>TclRenameCommand\<close>

text \<open>
  A \<^verbatim>\<open>NULL\<close> or empty new name is the empty string. The function returns \<open>None\<close>
  only when the deletion it delegates to does. \<^verbatim>\<open>Tcl_FindCommand\<close> found the command
  through its hash entry, so \<^verbatim>\<open>oldHPtr\<close> is not \<^verbatim>\<open>NULL\<close> there; the model leaves
  the tables alone if it is.
\<close>

text \<open>
  The provisional move: the command is entered in the table of the new namespace under
  the new tail, its \<^verbatim>\<open>hPtr\<close> and \<^verbatim>\<open>nsPtr\<close> are redirected, and shadowed command
  references are reset, so that the alias loop check sees the command at its new place.
\<close>

definition TclRenameCommand_provisional ::
  "'x Env \<Rightarrow> cmd_ptr \<Rightarrow> ns_ptr \<Rightarrow> string \<Rightarrow> 'x Interp \<Rightarrow> 'x Interp" where
  "TclRenameCommand_provisional env cmdPtr newNsPtr newTail iPtr1 =
     (let h = (NsCmdTable newNsPtr, newTail);
          iPtr2 = Tcl_SetHashValue h cmdPtr iPtr1;
          iPtr3 = upd_cmd cmdPtr (\<lambda>c. c\<lparr>hPtr := Some h, nsPtr := newNsPtr\<rparr>) iPtr2
      in iPtr3\<lparr>ext := TclResetShadowedCmdRefs env iPtr3 cmdPtr\<rparr>)"

definition TclRenameCommand ::
  "nat \<Rightarrow> 'x Env \<Rightarrow> string \<Rightarrow> string \<Rightarrow> 'x Interp \<Rightarrow> (cint \<times> 'x Interp) option" where
  "TclRenameCommand fuel env oldName newName iPtr =
     (case Tcl_FindCommand env iPtr oldName 0 of
        (None, r) \<Rightarrow>
          Some (TCL_ERROR,
                Tcl_AppendResult
                  (''can't '' @ (if newName = [] then ''delete'' else ''rename'') @ '' ''
                     @ [CHR 0x22] @ oldName @ [CHR 0x22] @ '': command doesn't exist'')
                  (iPtr\<lparr>result := r\<rparr>))
      | (Some cmdPtr, r) \<Rightarrow>
          let iPtr0 = iPtr\<lparr>result := r\<rparr>;
              cmdNsPtr = nsPtr (cmdHeap iPtr0 cmdPtr);
              oldFullName = Tcl_GetCommandFullName iPtr0 cmdPtr
          in if newName = [] then
               (case Tcl_DeleteCommandFromToken fuel env cmdPtr iPtr0 of
                  None \<Rightarrow> None
                | Some iPtr' \<Rightarrow> Some (TCL_OK, iPtr'))
             else
               (case TclGetNamespaceForQualName env iPtr0 newName TCL_CREATE_NS_IF_UNKNOWN of
                  (x, Some newNsPtr, Some newTail) \<Rightarrow>
                    let iPtr1 = iPtr0\<lparr>ext := x\<rparr>
                    in if Tcl_FindHashEntry (NsCmdTable newNsPtr) newTail iPtr1 \<noteq> None then
                         Some (TCL_ERROR,
                               Tcl_AppendResult
                                 (''can't rename to '' @ [CHR 0x22] @ newName @ [CHR 0x22]
                                    @ '': command already exists'') iPtr1)
                       else
                         let oldHPtr = hPtr (cmdHeap iPtr1 cmdPtr);
                             iPtr4 = TclRenameCommand_provisional env cmdPtr newNsPtr newTail
                                       iPtr1
                         in (case TclPreventAliasLoop env iPtr4 cmdPtr of
                               (res, r') \<Rightarrow>
                                 let iPtr5 = iPtr4\<lparr>result := r'\<rparr>
                                 in if res \<noteq> TCL_OK then
                                      let iPtr6 = (case hPtr (cmdHeap iPtr5 cmdPtr) of
                                                     None \<Rightarrow> iPtr5
                                                   | Some h' \<Rightarrow> Tcl_DeleteHashEntry h' iPtr5);
                                          iPtr7 = upd_cmd cmdPtr
                                                    (\<lambda>c. c\<lparr>hPtr := oldHPtr, nsPtr := cmdNsPtr\<rparr>)
                                                    iPtr6
                                      in Some (res, iPtr7)
                                    else
                                      let iPtr6 = iPtr5\<lparr>ext :=
                                                    TclInvalidateNsCmdLookup env
                                                      (nsPtr (cmdHeap iPtr5 cmdPtr))
                                                      (TclInvalidateNsCmdLookup env cmdNsPtr
                                                         (ext iPtr5))\<rparr>;
                                          newFullName = nsFullName iPtr6 newNsPtr
                                             @ (if newNsPtr \<noteq> globalNsPtr iPtr6
                                                then ''::'' else [])
                                             @ newTail;
                                          iPtr7 = upd_cmd cmdPtr
                                                    (\<lambda>c. c\<lparr>refCount := refCount c + 1\<rparr>) iPtr6;
                                          iPtr8 = CallCommandTraces env cmdPtr (Some oldFullName)
                                                    (Some newFullName) TCL_TRACE_RENAME iPtr7;
                                          iPtr9 = (case oldHPtr of
                                                     None \<Rightarrow> iPtr8
                                                   | Some h' \<Rightarrow> Tcl_DeleteHashEntry h' iPtr8);
                                          iPtr10 = upd_cmd cmdPtr
                                                     (\<lambda>c. c\<lparr>cmdEpoch := cmdEpoch c + 1\<rparr>) iPtr9;
                                          iPtr11 = (if compileProc (cmdHeap iPtr10 cmdPtr) \<noteq> None
                                                    then iPtr10\<lparr>compileEpoch :=
                                                           compileEpoch iPtr10 + 1\<rparr>
                                                    else iPtr10)
                                      in Some (TCL_OK, TclCleanupCommand cmdPtr iPtr11))
                | (x, _, _) \<Rightarrow>
                    Some (TCL_ERROR,
                          Tcl_AppendResult
                            (''can't rename to '' @ [CHR 0x22] @ newName @ [CHR 0x22]
                               @ '': bad command name'') (iPtr0\<lparr>ext := x\<rparr>))))"

subsection \<open>Tcl_CreateObjCommand\<close>

text \<open>
  The loop that points the \<^verbatim>\<open>ImportedCmdData\<close> of every imported command at the new
  Command: \<^verbatim>\<open>dataPtr = refCmdPtr->objClientData; dataPtr->realCmdPtr = cmdPtr\<close>.
\<close>

fun relink_imports :: "cmd_ptr \<Rightarrow> cmd_ptr list \<Rightarrow> 'x Interp \<Rightarrow> 'x Interp" where
  "relink_imports cmdPtr [] iPtr = iPtr"
| "relink_imports cmdPtr (refCmdPtr # refs) iPtr =
     relink_imports cmdPtr refs
       (iPtr\<lparr>realCmdPtr :=
          (realCmdPtr iPtr)(objClientData (cmdHeap iPtr refCmdPtr) := cmdPtr)\<rparr>)"



subsection \<open>Callbacks that leave the deletion of a Command alone\<close>

text \<open>Two Command structures with the same delete procedure, delete data, epoch and imports.\<close>

definition same_core :: "Command \<Rightarrow> Command \<Rightarrow> bool" where
  "same_core c c' \<longleftrightarrow>
     deleteProc c' = deleteProc c \<and> deleteData c' = deleteData c \<and> cmdEpoch c' = cmdEpoch c
     \<and> importRefPtr c' = importRefPtr c"




subsection \<open>Optional strings\<close>

text \<open>
  The \<^verbatim>\<open>command\<close> argument of the dispatcher may be \<^verbatim>\<open>NULL\<close>; the traces, which are
  the only readers, are not called then.
\<close>

definition the_default :: "'a \<Rightarrow> 'a option \<Rightarrow> 'a" where
  "the_default d x = (case x of None \<Rightarrow> d | Some v \<Rightarrow> v)"

subsection \<open>Printing a C int in decimal\<close>

function show_nat :: "nat \<Rightarrow> string" where
  "show_nat n =
     (if n < 10 then [char_of (48 + n)] else show_nat (n div 10) @ [char_of (48 + n mod 10)])"
  by pat_completeness auto
termination
  by (relation "measure id") auto

declare show_nat.simps [simp del]

text \<open>\<^verbatim>\<open>sprintf\<close> with the format \<^verbatim>\<open>%d\<close>.\<close>

definition sprintf_d :: "cint \<Rightarrow> string" where
  "sprintf_d c = (if sint c < 0 then ''-'' @ show_nat (nat (- sint c)) else show_nat (nat (sint c)))"

subsection \<open>TclInterpReady\<close>

definition TclInterpReady :: "'x Env \<Rightarrow> 'x Interp \<Rightarrow> cint \<times> 'x Interp" where
  "TclInterpReady env iPtr =
     (let iPtr1 = Tcl_ResetResult env iPtr
      in if interpFlags iPtr1 AND DELETED \<noteq> 0 then
           (TCL_ERROR,
            Tcl_SetErrorCode
              [''CORE'', ''IDELETE'', ''attempt to call eval in deleted interpreter'']
              (Tcl_AppendResult ''attempt to call eval in deleted interpreter''
                 (Tcl_ResetResult env iPtr1)))
         else if maxNestingDepth iPtr1 <s numLevels iPtr1 \<or> TclpCheckStackSpace env = 0 then
           (TCL_ERROR,
            Tcl_AppendResult ''too many nested evaluations (infinite loop?)'' iPtr1)
         else (TCL_OK, iPtr1))"

subsection \<open>TclEvalObjvInternal\<close>

text \<open>
  Words are given by their string representation; \<^verbatim>\<open>objc\<close> is the length of the word
  list. The part of \<^verbatim>\<open>TclEvalObjvInternal\<close> after the traces comes in three
  definitions: the call of the command procedure (in the global frame when asked, and
  with a pending ensemble rewrite dropped), the leave traces (first those of the command,
  then those of the interpreter, none if the command has been deleted), and the whole:
  the command procedure is invoked unless a trace failed or a limit is exceeded,
  asynchronous handlers and limits are served, the leave traces run, and the reference
  taken on the Command is dropped. \<open>code\<close> is still \<^verbatim>\<open>TCL_OK\<close> when control arrives
  here.
\<close>

definition TclEvalObjvInternal_call_objProc ::
  "'x Env \<Rightarrow> Tcl_Obj list \<Rightarrow> cint \<Rightarrow> cmd_ptr \<Rightarrow> 'x Interp \<Rightarrow> cint \<times> 'x Interp" where
  "TclEvalObjvInternal_call_objProc env objv fl cmdPtr iPtr2 =
     (let savedVarFramePtr = varFramePtr iPtr2;
          iA = (if fl AND TCL_EVAL_GLOBAL \<noteq> 0 then iPtr2\<lparr>varFramePtr := None\<rparr> else iPtr2);
          iB = (if fl AND TCL_EVAL_INVOKE = 0 \<and> ensembleRewrite_sourceObjs iA \<noteq> None
                   \<and> \<not> Tcl_IsEnsemble env iA cmdPtr
                then iA\<lparr>ensembleRewrite_sourceObjs := None\<rparr> else iA);
          (c, iC) = callback_code (EvObjProc cmdPtr objv)
                      (callObjProc env (objProc (cmdHeap iB cmdPtr))
                         (objClientData (cmdHeap iB cmdPtr)) objv) iB
      in (c, iC\<lparr>varFramePtr := savedVarFramePtr\<rparr>))"

definition TclEvalObjvInternal_leave_traces ::
  "'x Env \<Rightarrow> Tcl_Obj list \<Rightarrow> string option \<Rightarrow> cmd_ptr \<Rightarrow> cint \<Rightarrow> cint \<Rightarrow> 'x Interp
     \<Rightarrow> cint \<times> 'x Interp" where
  "TclEvalObjvInternal_leave_traces env objv command cmdPtr traceCode code iPtr5 =
     (if flags (cmdHeap iPtr5 cmdPtr) AND CMD_IS_DELETED = 0 then
        let (traceCode1, iPtr6) =
              (if flags (cmdHeap iPtr5 cmdPtr) AND CMD_HAS_EXEC_TRACES \<noteq> 0
                  \<and> traceCode = TCL_OK
               then callback_code (EvExecutionTraces cmdPtr TCL_TRACE_LEAVE_EXEC)
                      (TclCheckExecutionTraces env (the_default [] command) cmdPtr code
                         TCL_TRACE_LEAVE_EXEC objv) iPtr5
               else (traceCode, iPtr5))
        in (if interpTracePtr iPtr6 \<noteq> [] \<and> traceCode1 = TCL_OK
            then callback_code (EvInterpTraces TCL_TRACE_LEAVE_EXEC)
                   (TclCheckInterpTraces env (the_default [] command) cmdPtr code
                      TCL_TRACE_LEAVE_EXEC objv) iPtr6
            else (traceCode1, iPtr6))
      else (traceCode, iPtr5))"

definition TclEvalObjvInternal_invoke ::
  "'x Env \<Rightarrow> Tcl_Obj list \<Rightarrow> string option \<Rightarrow> cint \<Rightarrow> cmd_ptr \<Rightarrow> cint \<Rightarrow> 'x Interp
     \<Rightarrow> cint \<times> 'x Interp" where
  "TclEvalObjvInternal_invoke env objv command fl cmdPtr traceCode iPtr =
     (let iPtr1 = upd_cmd cmdPtr (\<lambda>c. c\<lparr>refCount := refCount c + 1\<rparr>) iPtr;
          iPtr2 = iPtr1\<lparr>cmdCount := cmdCount iPtr1 + 1\<rparr>;
          (code1, iPtr3) =
            (if traceCode = TCL_OK \<and> \<not> Tcl_LimitExceeded env iPtr2
             then TclEvalObjvInternal_call_objProc env objv fl cmdPtr iPtr2
             else (TCL_OK, iPtr2));
          (code2, iPtr4) =
            (if Tcl_AsyncReady env iPtr3
             then callback_code EvAsyncInvoke (Tcl_AsyncInvoke env code1) iPtr3
             else (code1, iPtr3));
          (code3, iPtr5) =
            (if code2 = TCL_OK \<and> Tcl_LimitReady env iPtr4
             then callback_code EvLimitCheck (Tcl_LimitCheck env) iPtr4
             else (code2, iPtr4));
          (traceCode2, iPtr7) =
            TclEvalObjvInternal_leave_traces env objv command cmdPtr traceCode code3 iPtr5;
          iPtr8 = TclCleanupCommand cmdPtr iPtr7
      in (if traceCode2 \<noteq> TCL_OK then traceCode2 else code3, iPtr8))"

text \<open>
  The resolution of the first word: \<^verbatim>\<open>varFramePtr\<close> is \<^verbatim>\<open>NULL\<close> during the lookup
  when the flags ask for the global namespace, and is restored after it.
\<close>

definition TclEvalObjvInternal_lookup ::
  "'x Env \<Rightarrow> cint \<Rightarrow> Tcl_Obj \<Rightarrow> 'x Interp \<Rightarrow> cmd_ptr option" where
  "TclEvalObjvInternal_lookup env fl w iPtr =
     Tcl_GetCommandFromObj env
       (if fl AND (TCL_EVAL_INVOKE OR TCL_EVAL_GLOBAL) \<noteq> 0
        then iPtr\<lparr>varFramePtr := None\<rparr> else iPtr) w"

text \<open>
  The first round of traces: the enter traces of the interpreter, then those of the
  command, with a reference held on the Command meanwhile. \<open>code\<close> is \<^verbatim>\<open>TCL_OK\<close>
  there.
\<close>

definition TclEvalObjvInternal_enter_traces ::
  "'x Env \<Rightarrow> Tcl_Obj list \<Rightarrow> string option \<Rightarrow> cmd_ptr \<Rightarrow> cint \<Rightarrow> 'x Interp
     \<Rightarrow> cint \<times> 'x Interp" where
  "TclEvalObjvInternal_enter_traces env objv command cmdPtr traceCode iB =
     (let iPtr1 = upd_cmd cmdPtr (\<lambda>c. c\<lparr>refCount := refCount c + 1\<rparr>) iB;
          (traceCode1, iPtr2) =
            (if interpTracePtr iPtr1 \<noteq> [] \<and> traceCode = TCL_OK
             then callback_code (EvInterpTraces TCL_TRACE_ENTER_EXEC)
                    (TclCheckInterpTraces env (the_default [] command) cmdPtr TCL_OK
                       TCL_TRACE_ENTER_EXEC objv) iPtr1
             else (traceCode, iPtr1));
          (traceCode2, iPtr3) =
            (if flags (cmdHeap iPtr2 cmdPtr) AND CMD_HAS_EXEC_TRACES \<noteq> 0
                \<and> traceCode1 = TCL_OK
             then callback_code (EvExecutionTraces cmdPtr TCL_TRACE_ENTER_EXEC)
                    (TclCheckExecutionTraces env (the_default [] command) cmdPtr TCL_OK
                       TCL_TRACE_ENTER_EXEC objv) iPtr2
             else (traceCode1, iPtr2));
          iPtr4 = upd_cmd cmdPtr (\<lambda>c. c\<lparr>refCount := refCount c - 1\<rparr>) iPtr3
      in (traceCode2, iPtr4))"

text \<open>
  \<open>TclEvalObjvInternal_reparse\<close> is the code from the label
  \<^verbatim>\<open>reparseBecauseOfTraces\<close> on, for the word list \<open>w # ws\<close>; \<open>checkTraces\<close> and
  \<open>traceCode\<close> are the local variables of these names, and the jump back to the label is
  the call with \<open>checkTraces = False\<close>. The first argument bounds the number of passes and
  of nested invocations together; \<open>None\<close> is a run that needs more.
\<close>

fun TclEvalObjvInternal ::
    "nat \<Rightarrow> 'x Env \<Rightarrow> Tcl_Obj list \<Rightarrow> string option \<Rightarrow> cint \<Rightarrow> 'x Interp
       \<Rightarrow> (cint \<times> 'x Interp) option"
  and TclEvalObjvInternal_reparse ::
    "nat \<Rightarrow> 'x Env \<Rightarrow> Tcl_Obj \<Rightarrow> Tcl_Obj list \<Rightarrow> string option \<Rightarrow> cint \<Rightarrow> bool \<Rightarrow> cint
       \<Rightarrow> 'x Interp \<Rightarrow> (cint \<times> 'x Interp) option" where
  "TclEvalObjvInternal 0 env objv command fl iPtr = None"
| "TclEvalObjvInternal (Suc n) env objv command fl iPtr =
     (case TclInterpReady env iPtr of
        (ready, iPtr1) \<Rightarrow>
          if ready = TCL_ERROR then Some (TCL_ERROR, iPtr1)
          else (case objv of
                  [] \<Rightarrow> Some (TCL_OK, iPtr1)
                | w # ws \<Rightarrow>
                    TclEvalObjvInternal_reparse n env w ws command fl True TCL_OK iPtr1))"
| "TclEvalObjvInternal_reparse 0 env w ws command fl checkTraces traceCode iPtr = None"
| "TclEvalObjvInternal_reparse (Suc n) env w ws command fl checkTraces traceCode iPtr =
     (let iPtr0 = log_event EvPass iPtr;
          found = TclEvalObjvInternal_lookup env fl w iPtr0;
          iB = log_event (EvGetCommand w) iPtr0
      in (case found of
            None \<Rightarrow>
              let unknown = Tcl_GetCommandFromObj env iB ''::unknown'';
                  iC = log_event (EvGetCommand ''::unknown'') iB
              in (case unknown of
                    None \<Rightarrow>
                      Some (TCL_ERROR,
                            Tcl_AppendResult
                              (''invalid command name '' @ [CHR 0x22] @ w @ [CHR 0x22]) iC)
                  | Some u \<Rightarrow>
                      (case TclEvalObjvInternal n env (''::unknown'' # w # ws) command 0
                              (iC\<lparr>numLevels := numLevels iC + 1, evlog := []\<rparr>) of
                         None \<Rightarrow> None
                       | Some (code, iD) \<Rightarrow>
                           Some (code,
                                 iD\<lparr>numLevels := numLevels iD - 1,
                                     evlog := evlog iC @ [EvNested (evlog iD)]\<rparr>)))
          | Some cmdPtr \<Rightarrow>
              if checkTraces \<and> command \<noteq> None then
                let cmdEpoch0 = cmdEpoch (cmdHeap iB cmdPtr);
                    (traceCode2, iPtr4) =
                      TclEvalObjvInternal_enter_traces env (w # ws) command cmdPtr traceCode iB
                in if cmdEpoch0 \<noteq> cmdEpoch (cmdHeap iPtr4 cmdPtr) then
                     TclEvalObjvInternal_reparse n env w ws command fl False traceCode2 iPtr4
                   else
                     Some (TclEvalObjvInternal_invoke env (w # ws) command fl cmdPtr
                             traceCode2 iPtr4)
              else
                Some (TclEvalObjvInternal_invoke env (w # ws) command fl cmdPtr traceCode
                        iB)))"

text \<open>No top-level event of the list is the firing of an enter trace.\<close>

fun is_enter_trace :: "event \<Rightarrow> bool" where
  "is_enter_trace (EvInterpTraces k) = (k = TCL_TRACE_ENTER_EXEC)"
| "is_enter_trace (EvExecutionTraces p k) = (k = TCL_TRACE_ENTER_EXEC)"
| "is_enter_trace e = False"

subsection \<open>Error logging\<close>

definition Tcl_AddObjErrorInfo :: "string \<Rightarrow> 'x Interp \<Rightarrow> 'x Interp" where
  "Tcl_AddObjErrorInfo message iPtr =
     (let iPtr1 = (case errorInfo iPtr of
                     None \<Rightarrow>
                       let j = iPtr\<lparr>errorInfo := Some (result iPtr)\<rparr>
                       in (if errorCode j = None then Tcl_SetErrorCode [''NONE''] j else j)
                   | Some info \<Rightarrow> iPtr)
      in if message \<noteq> []
         then iPtr1\<lparr>errorInfo := Some (the_default [] (errorInfo iPtr1) @ message)\<rparr>
         else iPtr1)"

text \<open>
  \<open>before\<close> is the text of the script in front of the command: the source counts its
  newlines by walking from \<^verbatim>\<open>script\<close> to \<^verbatim>\<open>command\<close>. \<open>len\<close> is the number of
  bytes of the command to be shown.
\<close>

definition Tcl_LogCommandInfo ::
  "'x Env \<Rightarrow> string \<Rightarrow> string \<Rightarrow> nat \<Rightarrow> 'x Interp \<Rightarrow> 'x Interp" where
  "Tcl_LogCommandInfo env before command len iPtr =
     (if interpFlags iPtr AND ERR_ALREADY_LOGGED \<noteq> 0 then iPtr
      else
        let iPtr1 = iPtr\<lparr>errorLine := 1 + of_nat (length (filter (\<lambda>c. c = CHR 0x0A) before))\<rparr>;
            message = (if errorInfo iPtr1 = None
                       then [CHR 0x0A] @ ''    while executing'' @ [CHR 0x0A, CHR 0x22]
                       else [CHR 0x0A] @ ''    invoked from within'' @ [CHR 0x0A, CHR 0x22]);
            message1 = TclAppendLimitedToObj env message (take len command) 153;
            message2 = message1 @ [CHR 0x22]
        in Tcl_AddObjErrorInfo message2 iPtr1)"

subsection \<open>ProcessUnexpectedResult, Tcl_EvalObjv\<close>

definition ProcessUnexpectedResult :: "'x Env \<Rightarrow> cint \<Rightarrow> 'x Interp \<Rightarrow> 'x Interp" where
  "ProcessUnexpectedResult env returnCode iPtr =
     (let iPtr1 = Tcl_ResetResult env iPtr
      in if returnCode = TCL_BREAK then
           Tcl_AppendResult
             (''invoked '' @ [CHR 0x22] @ ''break'' @ [CHR 0x22] @ '' outside of a loop'') iPtr1
         else if returnCode = TCL_CONTINUE then
           Tcl_AppendResult
             (''invoked '' @ [CHR 0x22] @ ''continue'' @ [CHR 0x22] @ '' outside of a loop'')
             iPtr1
         else Tcl_SetResult (''command returned bad code: '' @ sprintf_d returnCode) iPtr1)"

text \<open>The command string that \<^verbatim>\<open>Tcl_EvalObjv\<close> builds for traces and for the error log.\<close>

definition Tcl_EvalObjv_cmdBuf :: "'x Env \<Rightarrow> Tcl_Obj list \<Rightarrow> string" where
  "Tcl_EvalObjv_cmdBuf env objv = foldl (Tcl_DStringAppendElement env) [] objv"

definition Tcl_EvalObjv_cmdString :: "'x Env \<Rightarrow> Tcl_Obj list \<Rightarrow> 'x Interp \<Rightarrow> string" where
  "Tcl_EvalObjv_cmdString env objv iPtr =
     (if list_ex (\<lambda>t. level t = 0 \<or> numLevels iPtr \<le>s level t) (interpTracePtr iPtr)
      then Tcl_EvalObjv_cmdBuf env objv else [])"

definition Tcl_EvalObjv ::
  "nat \<Rightarrow> 'x Env \<Rightarrow> Tcl_Obj list \<Rightarrow> cint \<Rightarrow> 'x Interp \<Rightarrow> (cint \<times> 'x Interp) option" where
  "Tcl_EvalObjv fuel env objv fl iPtr =
     (let allowExceptions = evalFlags iPtr AND TCL_ALLOW_EXCEPTIONS;
          cmdString = Tcl_EvalObjv_cmdString env objv iPtr;
          iPtr1 = iPtr\<lparr>numLevels := numLevels iPtr + 1\<rparr>
      in (case TclEvalObjvInternal fuel env objv (Some cmdString) fl iPtr1 of
            None \<Rightarrow> None
          | Some (code, iPtr2) \<Rightarrow>
              let iPtr3 = iPtr2\<lparr>numLevels := numLevels iPtr2 - 1\<rparr>;
                  top = (numLevels iPtr3 = 0);
                  (code1, iPtr4) =
                    (if top \<and> code = TCL_RETURN then call_ext (TclUpdateReturnInfo env) iPtr3
                     else (code, iPtr3));
                  (code2, iPtr5) =
                    (if top \<and> code1 \<noteq> TCL_OK \<and> code1 \<noteq> TCL_ERROR \<and> allowExceptions = 0
                     then (TCL_ERROR, ProcessUnexpectedResult env code1 iPtr4)
                     else (code1, iPtr4));
                  iPtr6 =
                    (if code2 = TCL_ERROR \<and> fl AND TCL_EVAL_INVOKE = 0 then
                       let cmdString1 = (if length cmdString = 0
                                         then Tcl_EvalObjv_cmdBuf env objv else cmdString)
                       in Tcl_LogCommandInfo env [] cmdString1 (length cmdString1) iPtr5
                     else iPtr5)
              in Some (code2, iPtr6)))"

text \<open>The log of \<open>iPtr'\<close> extends the log of \<open>iPtr\<close> by events that all satisfy \<open>P\<close>.\<close>

definition log_ext :: "(event \<Rightarrow> bool) \<Rightarrow> 'x Interp \<Rightarrow> 'x Interp \<Rightarrow> bool" where
  "log_ext P iPtr iPtr' \<longleftrightarrow> (\<exists>es. evlog iPtr' = evlog iPtr @ es \<and> list_all P es)"

definition quiet_event :: "event \<Rightarrow> bool" where
  "quiet_event e \<longleftrightarrow> e \<noteq> EvPass \<and> \<not> is_enter_trace e"

subsection \<open>Tcl_EvalEx: the words of one command\<close>

text \<open>
  The body of the loop of \<^verbatim>\<open>Tcl_EvalEx\<close> for one parsed command with at least one
  word: the words are substituted into an array of objects, words marked for expansion
  are replaced by the elements of their list, and the dispatcher is called. Parsing
  (\<^verbatim>\<open>Tcl_ParseCommand\<close>), the loop over the commands of the script and the code after
  the label \<^verbatim>\<open>error\<close> are not part of the model; reference counts are not modelled.

  The arrays of object pointers are cells of a store: \<^verbatim>\<open>staticObjArray\<close> (on the
  stack, \<^verbatim>\<open>NUM_STATIC_OBJS\<close> cells), the array allocated for more than
  \<^verbatim>\<open>NUM_STATIC_OBJS\<close> words, and the array allocated for the expanded words. A
  variable of type \<^verbatim>\<open>Tcl_Obj **\<close> is the name of an array, so that \<^verbatim>\<open>copy\<close> and
  \<^verbatim>\<open>objv\<close> may name the same cells. A cell that has not been written holds
  \<open>None\<close>, and so does an unwritten cell of the \<^verbatim>\<open>expand\<close> array; reading one, or
  indexing outside an array, makes the function return \<open>None\<close>. Counts and indices
  are unbounded numbers (\<^verbatim>\<open>objIdx\<close> may become -1, so it is an integer).
\<close>

definition NUM_STATIC_OBJS :: nat where "NUM_STATIC_OBJS = 20"

datatype arr_id = StaticObjArray | WordsObjArray | ExpandedObjArray

type_synonym obj_store = "arr_id \<Rightarrow> Tcl_Obj option list"

text \<open>
  Modelled from the spec: \<^verbatim>\<open>Tcl_ListObjLength\<close> (tclListObj.c) is not among the source
  files. It returns the number of elements that \<^verbatim>\<open>Tcl_ListObjGetElements\<close> yields, or
  fails, for a value that is not a list, with a message in the interpreter result.
\<close>

definition Tcl_ListObjLength :: "'x Env \<Rightarrow> Tcl_Obj \<Rightarrow> 'x Interp \<Rightarrow> cint \<times> nat \<times> 'x Interp" where
  "Tcl_ListObjLength env v iPtr =
     (case Tcl_ListObjGetElements env v of
        None \<Rightarrow> (TCL_ERROR, 0, iPtr\<lparr>result := listErrorMessage env v\<rparr>)
      | Some elements \<Rightarrow> (TCL_OK, length elements, iPtr))"

definition TclAppendObjToErrorInfo :: "Tcl_Obj \<Rightarrow> 'x Interp \<Rightarrow> 'x Interp" where
  "TclAppendObjToErrorInfo objPtr iPtr = Tcl_AddObjErrorInfo objPtr iPtr"

text \<open>The variables of the first loop, which substitutes the words.\<close>

record 'x words_loop =
  objectsUsed :: nat
  tokenIdx :: nat
  objectsNeeded :: nat
  expandRequested :: cint
  expand :: "cint option list"
  store :: obj_store
  interp :: "'x Interp"

text \<open>
  The first loop, with \<open>k\<close> words left: \<^verbatim>\<open>tokenPtr\<close> is the token at index
  \<^verbatim>\<open>tokenIdx\<close> of the token array, \<open>objv\<close> names the array that receives the values.
\<close>

fun Tcl_EvalEx_subst_words ::
  "'x Env \<Rightarrow> Tcl_Token list \<Rightarrow> arr_id \<Rightarrow> nat \<Rightarrow> 'x words_loop \<Rightarrow> (cint \<times> 'x words_loop) option"
where
  "Tcl_EvalEx_subst_words env toks objv 0 s = Some (TCL_OK, s)"
| "Tcl_EvalEx_subst_words env toks objv (Suc k) s =
     (if length toks \<le> tokenIdx s then None
      else
        let tok = toks ! tokenIdx s;
            (code, iPtr1) = call_ext (TclSubstTokens env
                               (take (numComponents tok) (drop (tokenIdx s + 1) toks)))
                              (interp s)
        in if code \<noteq> TCL_OK then Some (code, s\<lparr>interp := iPtr1\<rparr>)
           else if length (store s objv) \<le> objectsUsed s \<or> length (expand s) \<le> objectsUsed s
           then None
           else
             let v = result iPtr1;
                 s1 = s\<lparr>store := (store s)(objv := (store s objv)[objectsUsed s := Some v])\<rparr>
             in if tokenType tok = TCL_TOKEN_EXPAND_WORD then
                  (case Tcl_ListObjLength env v iPtr1 of
                     (code1, numElements, iPtr2) \<Rightarrow>
                       if code1 = TCL_ERROR then
                         let msg = [CHR 0x0A] @ ''    (expanding word ''
                                     @ sprintf_d (of_nat (objectsUsed s)) @ '')''
                         in Some (code1, s1\<lparr>interp := TclAppendObjToErrorInfo msg iPtr2\<rparr>)
                       else
                         Tcl_EvalEx_subst_words env toks objv k
                           (s1\<lparr>expandRequested := 1,
                               expand := (expand s)[objectsUsed s := Some 1],
                               objectsNeeded := objectsNeeded s
                                  + (if numElements \<noteq> 0 then numElements else 1),
                               interp := iPtr2,
                               objectsUsed := objectsUsed s + 1,
                               tokenIdx := tokenIdx s + (numComponents tok + 1)\<rparr>))
                else
                  Tcl_EvalEx_subst_words env toks objv k
                    (s1\<lparr>expand := (expand s)[objectsUsed s := Some 0],
                        objectsNeeded := objectsNeeded s + 1,
                        interp := iPtr1,
                        objectsUsed := objectsUsed s + 1,
                        tokenIdx := tokenIdx s + (numComponents tok + 1)\<rparr>))"

text \<open>
  The inner loop of the expansion,
  \<^verbatim>\<open>while (numElements--) { objv[objIdx--] = elements[numElements]; }\<close>.
\<close>

fun Tcl_EvalEx_copy_elements ::
  "Tcl_Obj list \<Rightarrow> arr_id \<Rightarrow> nat \<Rightarrow> int \<Rightarrow> obj_store \<Rightarrow> (int \<times> obj_store) option"
where
  "Tcl_EvalEx_copy_elements elements objv 0 objIdx st = Some (objIdx, st)"
| "Tcl_EvalEx_copy_elements elements objv (Suc numElements) objIdx st =
     (if objIdx < 0 \<or> int (length (st objv)) \<le> objIdx \<or> length elements \<le> numElements
      then None
      else Tcl_EvalEx_copy_elements elements objv numElements (objIdx - 1)
             (st(objv := (st objv)[nat objIdx := Some (elements ! numElements)])))"

text \<open>
  The outer loop of the expansion, \<^verbatim>\<open>while (wordIdx--) { ... }\<close>, from the last word
  to the first. It returns \<^verbatim>\<open>objIdx\<close>, \<^verbatim>\<open>objectsUsed\<close> and the store.
\<close>

fun Tcl_EvalEx_expand_words ::
  "'x Env \<Rightarrow> cint option list \<Rightarrow> arr_id \<Rightarrow> arr_id \<Rightarrow> nat \<Rightarrow> int \<Rightarrow> nat \<Rightarrow> obj_store
     \<Rightarrow> (int \<times> nat \<times> obj_store) option"
where
  "Tcl_EvalEx_expand_words env expnd copy objv 0 objIdx used st = Some (objIdx, used, st)"
| "Tcl_EvalEx_expand_words env expnd copy objv (Suc wordIdx) objIdx used st =
     (if length expnd \<le> wordIdx \<or> length (st copy) \<le> wordIdx then None
      else
        (case (expnd ! wordIdx, st copy ! wordIdx) of
           (Some e, Some temp) \<Rightarrow>
             if e \<noteq> 0 then
               (case Tcl_ListObjGetElements env temp of
                  None \<Rightarrow> None
                | Some elements \<Rightarrow>
                    (case Tcl_EvalEx_copy_elements elements objv (length elements) objIdx st of
                       None \<Rightarrow> None
                     | Some (objIdx1, st1) \<Rightarrow>
                         Tcl_EvalEx_expand_words env expnd copy objv wordIdx objIdx1
                           (used + length elements) st1))
             else if objIdx < 0 \<or> int (length (st objv)) \<le> objIdx then None
             else Tcl_EvalEx_expand_words env expnd copy objv wordIdx (objIdx - 1) (used + 1)
                    (st(objv := (st objv)[nat objIdx := Some temp]))
         | _ \<Rightarrow> None))"

text \<open>
  The argument vector of a command: \<open>n\<close> cells of the array \<open>objv\<close>, from the cell
  \<open>off\<close> on.
\<close>

definition read_objv :: "obj_store \<Rightarrow> arr_id \<Rightarrow> nat \<Rightarrow> nat \<Rightarrow> Tcl_Obj list option" where
  "read_objv st objv off n =
     (if length (st objv) < off + n then None else those (take n (drop off (st objv))))"

text \<open>
  The second part, after the words have been substituted: if some word was marked for
  expansion, the words are copied from the last to the first, into a new array when
  \<^verbatim>\<open>staticObjArray\<close> is not in use or too small, and otherwise in place. The result
  is the vector \<^verbatim>\<open>objv\<close> of \<^verbatim>\<open>objectsUsed\<close> objects that is passed to the dispatcher.
\<close>

definition Tcl_EvalEx_expansion ::
  "'x Env \<Rightarrow> Tcl_Parse \<Rightarrow> arr_id \<Rightarrow> 'x words_loop \<Rightarrow> Tcl_Obj list option" where
  "Tcl_EvalEx_expansion env parse objvSpace s =
     (if expandRequested s \<noteq> 0 then
        let copy = objvSpace;
            wordIdx = numWords parse;
            objIdx = int (objectsNeeded s) - 1;
            resize = (NUM_STATIC_OBJS < numWords parse \<or> NUM_STATIC_OBJS < objectsNeeded s);
            objv = (if resize then ExpandedObjArray else objvSpace);
            st1 = (if resize
                   then (store s)(ExpandedObjArray := replicate (objectsNeeded s) None)
                   else store s)
        in (case Tcl_EvalEx_expand_words env (expand s) copy objv wordIdx objIdx 0 st1 of
              None \<Rightarrow> None
            | Some (objIdx1, used, st2) \<Rightarrow>
                if objIdx1 + 1 < 0 then None
                else read_objv st2 objv (nat (objIdx1 + 1)) used)
      else read_objv (store s) objvSpace 0 (objectsUsed s))"

text \<open>
  The words of a command: both parts. \<open>expandStatic\<close> and \<open>st\<close> are the contents of the
  \<^verbatim>\<open>expandStatic\<close> array and of the arrays of objects at the start; memory from
  \<^verbatim>\<open>ckalloc\<close> is unwritten. The function returns the completion code, the vector
  \<^verbatim>\<open>objv\<close> of \<^verbatim>\<open>objectsUsed\<close> objects (empty unless the code is \<^verbatim>\<open>TCL_OK\<close>), the
  number \<^verbatim>\<open>objectsNeeded\<close> of cells provided for it, and the interpreter.
\<close>

definition Tcl_EvalEx_words ::
  "'x Env \<Rightarrow> Tcl_Parse \<Rightarrow> cint option list \<Rightarrow> obj_store \<Rightarrow> 'x Interp
     \<Rightarrow> (cint \<times> Tcl_Obj list \<times> nat \<times> 'x Interp) option" where
  "Tcl_EvalEx_words env parse expandStatic st iPtr =
     (let big = (NUM_STATIC_OBJS < numWords parse);
          expand0 = (if big then replicate (numWords parse) None else expandStatic);
          objvSpace = (if big then WordsObjArray else StaticObjArray);
          st0 = (if big then st(WordsObjArray := replicate (numWords parse) None) else st)
      in (case Tcl_EvalEx_subst_words env (tokenPtr parse) objvSpace (numWords parse)
                 \<lparr>objectsUsed = 0, tokenIdx = 0, objectsNeeded = 0, expandRequested = 0,
                  expand = expand0, store = st0, interp = iPtr\<rparr> of
            None \<Rightarrow> None
          | Some (code, s) \<Rightarrow>
              if code \<noteq> TCL_OK then Some (code, [], objectsNeeded s, interp s)
              else
                (case Tcl_EvalEx_expansion env parse objvSpace s of
                   None \<Rightarrow> None
                 | Some argv \<Rightarrow> Some (TCL_OK, argv, objectsNeeded s, interp s))))"

text \<open>The words of a command and its execution by the dispatcher.\<close>

definition Tcl_EvalEx_command ::
  "nat \<Rightarrow> 'x Env \<Rightarrow> Tcl_Parse \<Rightarrow> cint option list \<Rightarrow> obj_store \<Rightarrow> 'x Interp
     \<Rightarrow> (cint \<times> 'x Interp) option" where
  "Tcl_EvalEx_command fuel env parse expandStatic st iPtr =
     (case Tcl_EvalEx_words env parse expandStatic st iPtr of
        None \<Rightarrow> None
      | Some (code, argv, needed, iPtr1) \<Rightarrow>
          if code \<noteq> TCL_OK then Some (code, iPtr1)
          else
            (case TclEvalObjvInternal fuel env argv
                    (Some (take (commandSize parse) (commandStart parse))) 0
                    (iPtr1\<lparr>numLevels := numLevels iPtr1 + 1\<rparr>) of
               None \<Rightarrow> None
             | Some (code1, iPtr2) \<Rightarrow> Some (code1, iPtr2\<lparr>numLevels := numLevels iPtr2 - 1\<rparr>)))"

text \<open>
  What the words of a command are to become, without arrays: the words are substituted
  from left to right, each in the state the previous ones left; \<open>word_values\<close> gives the
  type of each word with its value. A word marked for expansion stands for the elements
  of its list, any other word for its value.
\<close>

fun word_values ::
  "'x Env \<Rightarrow> Tcl_Token list \<Rightarrow> nat \<Rightarrow> nat \<Rightarrow> 'x Interp
     \<Rightarrow> ((cint \<times> Tcl_Obj) list \<times> 'x Interp) option" where
  "word_values env toks 0 idx iPtr = Some ([], iPtr)"
| "word_values env toks (Suc k) idx iPtr =
     (if length toks \<le> idx then None
      else
        let tok = toks ! idx;
            (code, iPtr1) = call_ext (TclSubstTokens env
                               (take (numComponents tok) (drop (idx + 1) toks))) iPtr
        in if code \<noteq> TCL_OK then None
           else if tokenType tok = TCL_TOKEN_EXPAND_WORD
                   \<and> Tcl_ListObjGetElements env (result iPtr1) = None then None
           else
             (case word_values env toks k (idx + (numComponents tok + 1)) iPtr1 of
                None \<Rightarrow> None
              | Some (tvs, iPtr2) \<Rightarrow> Some ((tokenType tok, result iPtr1) # tvs, iPtr2)))"

definition word_slots :: "'x Env \<Rightarrow> cint \<times> Tcl_Obj \<Rightarrow> Tcl_Obj list" where
  "word_slots env tv =
     (if fst tv = TCL_TOKEN_EXPAND_WORD
      then the_default [] (Tcl_ListObjGetElements env (snd tv))
      else [snd tv])"

definition word_cells :: "'x Env \<Rightarrow> cint \<times> Tcl_Obj \<Rightarrow> nat" where
  "word_cells env tv = (if length (word_slots env tv) \<noteq> 0 then length (word_slots env tv) else 1)"

text \<open>The entry of the \<^verbatim>\<open>expand\<close> array for a word.\<close>

definition expand_flag :: "cint \<times> Tcl_Obj \<Rightarrow> cint option" where
  "expand_flag tv = Some (if fst tv = TCL_TOKEN_EXPAND_WORD then 1 else 0)"

subsection \<open>A small interpreter for the concrete checks\<close>

definition env0 :: "unit Env" where
  "env0 = \<lparr>
     Tcl_FindCommand = (\<lambda>iPtr name fl.
        (cmdTable iPtr (globalNsPtr iPtr) name,
         (case cmdTable iPtr (globalNsPtr iPtr) name of
            None \<Rightarrow> ''unknown command'' | Some _ \<Rightarrow> result iPtr))),
     Tcl_GetCommandFromObj = (\<lambda>iPtr name. cmdTable iPtr (globalNsPtr iPtr) name),
     TclGetNamespaceForQualName = (\<lambda>iPtr name fl. ((), Some (globalNsPtr iPtr), Some name)),
     TclInvalidateNsCmdLookup = (\<lambda>ns x. x),
     TclInvalidateNsPath = (\<lambda>ns x. x),
     TclResetShadowedCmdRefs = (\<lambda>iPtr p. ()),
     TclPreventAliasLoop = (\<lambda>iPtr p. (TCL_OK, result iPtr)),
     Tcl_ResetResult_ext = (\<lambda>x. x),
     ckalloc_Command = (\<lambda>iPtr. 100),
     callDeleteProc = (\<lambda>f d iPtr. iPtr),
     callTraceProc = (\<lambda>f d old new fl iPtr. iPtr),
     callObjProc = (\<lambda>f d objv iPtr. (TCL_OK, iPtr)),
     TclCheckInterpTraces = (\<lambda>cmd p code fl objv iPtr. (TCL_OK, iPtr)),
     TclCheckExecutionTraces = (\<lambda>cmd p code fl objv iPtr. (TCL_OK, iPtr)),
     Tcl_LimitExceeded = (\<lambda>iPtr. False),
     Tcl_AsyncReady = (\<lambda>iPtr. False),
     Tcl_AsyncInvoke = (\<lambda>code iPtr. (code, iPtr)),
     Tcl_LimitReady = (\<lambda>iPtr. False),
     Tcl_LimitCheck = (\<lambda>iPtr. (TCL_OK, iPtr)),
     Tcl_IsEnsemble = (\<lambda>iPtr p. False),
     TclpCheckStackSpace = 1,
     TclUpdateReturnInfo = (\<lambda>iPtr. (TCL_OK, iPtr)),
     Tcl_DStringAppendElement = (\<lambda>buf s. (if buf = [] then s else buf @ '' '' @ s)),
     TclAppendLimitedToObj = (\<lambda>msg s n. msg @ take n s),
     TclSubstTokens = (\<lambda>toks iPtr. (TCL_OK, iPtr\<lparr>result := concat (map tokenText toks)\<rparr>)),
     Tcl_ListObjGetElements =
       (\<lambda>v. if CHR 0x7B \<in> set v then None
            else Some (map (\<lambda>c. [c]) (filter (\<lambda>c. c \<noteq> CHR '' '') v))),
     listErrorMessage = (\<lambda>v. ''unmatched open brace in list'')
   \<rparr>"

definition cmd0 :: Command where
  "cmd0 = \<lparr> hPtr = None, nsPtr = 0, refCount = 1, cmdEpoch = 0, compileProc = None,
            objProc = Some (ObjCmdProc 0), objClientData = 0,
            proc = Some TclInvokeObjectCommand, clientData = 0,
            deleteProc = None, deleteData = 0, flags = 0,
            importRefPtr = [], tracePtr = [] \<rparr>"

definition interp0 :: "unit Interp" where
  "interp0 = \<lparr> result = [], errorInfo = None, errorCode = None, errorLine = 0,
               globalNsPtr = 0,
               hiddenCmdTablePtr = None, numLevels = 0, maxNestingDepth = 1000,
               interpFlags = 0, evalFlags = 0, compileEpoch = 0, cmdCount = 0,
               interpTracePtr = [], varFramePtr = None, ensembleRewrite_sourceObjs = None,
               cmdHeap = (\<lambda>p. cmd0), cmdTable = (\<lambda>ns. Map.empty),
               nsFullName = (\<lambda>ns. if ns = 0 then ''::'' else ''::ns''),
               realCmdPtr = (\<lambda>d. 0), evlog = [], ext = () \<rparr>"

text \<open>An interpreter with one command, \<open>exec\<close>, in the global namespace.\<close>

definition interp1 :: "unit Interp" where
  "interp1 = interp0\<lparr>
     cmdHeap := (\<lambda>p. cmd0)(1 := cmd0\<lparr>hPtr := Some (NsCmdTable 0, ''exec'')\<rparr>),
     cmdTable := (\<lambda>ns. Map.empty)(0 := [''exec'' \<mapsto> 1]) \<rparr>"

text \<open>
  An interpreter with two commands, \<open>cmdA\<close> and \<open>cmdB\<close>, and collaborators whose alias
  check rejects every move.
\<close>

definition interp2 :: "unit Interp" where
  "interp2 = interp0\<lparr>
     cmdHeap := (\<lambda>p. cmd0)(1 := cmd0\<lparr>hPtr := Some (NsCmdTable 0, ''cmdA'')\<rparr>,
                            2 := cmd0\<lparr>hPtr := Some (NsCmdTable 0, ''cmdB'')\<rparr>),
     cmdTable := (\<lambda>ns. Map.empty)(0 := [''cmdA'' \<mapsto> 1, ''cmdB'' \<mapsto> 2]) \<rparr>"

definition env_alias_loop :: "unit Env" where
  "env_alias_loop = env0\<lparr>TclPreventAliasLoop := (\<lambda>iPtr p. (TCL_ERROR, ''would create a loop''))\<rparr>"






text \<open>Collaborators whose native stack check fails.\<close>

definition env_nostack :: "unit Env" where
  "env_nostack = env0\<lparr>TclpCheckStackSpace := 0\<rparr>"

text \<open>An interpreter whose global namespace has the handler \<open>::unknown\<close>.\<close>

definition interp4 :: "unit Interp" where
  "interp4 = interp0\<lparr>
     cmdHeap := (\<lambda>p. cmd0)(3 := cmd0\<lparr>hPtr := Some (NsCmdTable 0, ''::unknown'')\<rparr>),
     cmdTable := (\<lambda>ns. Map.empty)(0 := [''::unknown'' \<mapsto> 3]) \<rparr>"



text \<open>
  Collaborators whose command procedures all return the code \<open>c\<close>, and the interpreter
  \<open>interp1\<close> after \<^verbatim>\<open>Tcl_AllowExceptions\<close>.
\<close>

definition env_code :: "cint \<Rightarrow> unit Env" where
  "env_code c = env0\<lparr>callObjProc := (\<lambda>f d objv iPtr. (c, iPtr))\<rparr>"

definition interp6 :: "unit Interp" where
  "interp6 = interp1\<lparr>evalFlags := TCL_ALLOW_EXCEPTIONS\<rparr>"

text \<open>
  The parsed commands \<^verbatim>\<open>exec {*}{}\<close> and \<^verbatim>\<open>exec {*}{a b} {*}{} c\<close>, and the arrays
  of \<^verbatim>\<open>Tcl_EvalEx\<close> before anything is written to them.
\<close>

definition word_tokens :: "cint \<Rightarrow> string \<Rightarrow> string \<Rightarrow> Tcl_Token list" where
  "word_tokens ty whole inner =
     [\<lparr>tokenType = ty, tokenText = whole, numComponents = 1\<rparr>,
      \<lparr>tokenType = TCL_TOKEN_TEXT, tokenText = inner, numComponents = 0\<rparr>]"

definition parse_empty_expansion :: Tcl_Parse where
  "parse_empty_expansion =
     \<lparr>numWords = 2,
      tokenPtr = word_tokens TCL_TOKEN_SIMPLE_WORD ''exec'' ''exec''
                 @ word_tokens TCL_TOKEN_EXPAND_WORD ''{*}{}'' [],
      commandStart = ''exec {*}{}'', commandSize = 10\<rparr>"

definition parse_expansions :: Tcl_Parse where
  "parse_expansions =
     \<lparr>numWords = 4,
      tokenPtr = word_tokens TCL_TOKEN_SIMPLE_WORD ''exec'' ''exec''
                 @ word_tokens TCL_TOKEN_EXPAND_WORD ''{*}{a b}'' ''a b''
                 @ word_tokens TCL_TOKEN_EXPAND_WORD ''{*}{}'' []
                 @ word_tokens TCL_TOKEN_SIMPLE_WORD ''c'' ''c'',
      commandStart = ''exec {*}{a b} {*}{} c'', commandSize = 22\<rparr>"

definition expandStatic0 :: "cint option list" where
  "expandStatic0 = replicate NUM_STATIC_OBJS None"

definition store0 :: obj_store where
  "store0 = (\<lambda>a. [])(StaticObjArray := replicate NUM_STATIC_OBJS None)"

section \<open>Theorems\<close>

subsection \<open>Tcl_SetRecursionLimit\<close>

text \<open>
  C10. \<^verbatim>\<open>Tcl_SetRecursionLimit\<close> always returns the limit that was configured before
  the call. It stores the requested depth only when the depth is strictly positive (as a
  signed number); for every depth less than or equal to zero the interpreter is left as
  it was, so the recursion limit is unchanged.
\<close>

theorem Tcl_SetRecursionLimit_returns_old:
  "fst (Tcl_SetRecursionLimit depth iPtr) = maxNestingDepth iPtr
   \<and> (0 <s depth \<longrightarrow>
        snd (Tcl_SetRecursionLimit depth iPtr) = iPtr\<lparr>maxNestingDepth := depth\<rparr>)
   \<and> (depth \<le>s 0 \<longrightarrow> snd (Tcl_SetRecursionLimit depth iPtr) = iPtr)"
  by (auto simp: Tcl_SetRecursionLimit_def Let_def)

theorem Tcl_SetRecursionLimit_returns_old_witness:
  "fst (Tcl_SetRecursionLimit (- 5) interp0) = 1000
   \<and> maxNestingDepth (snd (Tcl_SetRecursionLimit (- 5) interp0)) = 1000
   \<and> maxNestingDepth (snd (Tcl_SetRecursionLimit 7 interp0)) = 7"
proof -
  have neg: "(- 5 :: cint) \<le>s 0" by (simp add: word_sle_eq)
  have pos: "(0 :: cint) <s 7" by (simp add: word_sless_alt)
  from Tcl_SetRecursionLimit_returns_old [of "- 5" interp0] neg
  have a: "fst (Tcl_SetRecursionLimit (- 5) interp0) = maxNestingDepth interp0"
    and b: "snd (Tcl_SetRecursionLimit (- 5) interp0) = interp0" by blast+
  from Tcl_SetRecursionLimit_returns_old [of 7 interp0] pos
  have c: "snd (Tcl_SetRecursionLimit 7 interp0) = interp0\<lparr>maxNestingDepth := 7\<rparr>" by blast
  show ?thesis by (simp add: a b c) (simp add: interp0_def)
qed


subsection \<open>Basic facts about the state operations\<close>

lemma hidden_entries_simps [simp]:
  "hidden_entries (iPtr\<lparr>result := r\<rparr>) = hidden_entries iPtr"
  "hidden_entries (iPtr\<lparr>ext := x\<rparr>) = hidden_entries iPtr"
  "hidden_entries (iPtr\<lparr>cmdHeap := hp\<rparr>) = hidden_entries iPtr"
  "hidden_entries (iPtr\<lparr>cmdTable := ct\<rparr>) = hidden_entries iPtr"
  "hidden_entries (iPtr\<lparr>compileEpoch := ce\<rparr>) = hidden_entries iPtr"
  "hidden_entries (iPtr\<lparr>evlog := ev\<rparr>) = hidden_entries iPtr"
  "hidden_entries (iPtr\<lparr>hiddenCmdTablePtr := Some t\<rparr>) = t"
  by (simp_all add: hidden_entries_def)

lemma upd_cmd_simps [simp]:
  "cmdHeap (upd_cmd p f iPtr) = (cmdHeap iPtr)(p := f (cmdHeap iPtr p))"
  "cmdTable (upd_cmd p f iPtr) = cmdTable iPtr"
  "hiddenCmdTablePtr (upd_cmd p f iPtr) = hiddenCmdTablePtr iPtr"
  "hidden_entries (upd_cmd p f iPtr) = hidden_entries iPtr"
  "compileEpoch (upd_cmd p f iPtr) = compileEpoch iPtr"
  "evlog (upd_cmd p f iPtr) = evlog iPtr"
  "result (upd_cmd p f iPtr) = result iPtr"
  "ext (upd_cmd p f iPtr) = ext iPtr"
  "globalNsPtr (upd_cmd p f iPtr) = globalNsPtr iPtr"
  by (simp_all add: upd_cmd_def)

lemma Tcl_AppendResult_simps [simp]:
  "cmdHeap (Tcl_AppendResult s iPtr) = cmdHeap iPtr"
  "cmdTable (Tcl_AppendResult s iPtr) = cmdTable iPtr"
  "hiddenCmdTablePtr (Tcl_AppendResult s iPtr) = hiddenCmdTablePtr iPtr"
  "hidden_entries (Tcl_AppendResult s iPtr) = hidden_entries iPtr"
  "compileEpoch (Tcl_AppendResult s iPtr) = compileEpoch iPtr"
  "evlog (Tcl_AppendResult s iPtr) = evlog iPtr"
  "result (Tcl_AppendResult s iPtr) = result iPtr @ s"
  "ext (Tcl_AppendResult s iPtr) = ext iPtr"
  "globalNsPtr (Tcl_AppendResult s iPtr) = globalNsPtr iPtr"
  by (simp_all add: Tcl_AppendResult_def)

lemma Tcl_DeleteHashEntry_simps [simp]:
  "cmdHeap (Tcl_DeleteHashEntry h iPtr) = cmdHeap iPtr"
  "compileEpoch (Tcl_DeleteHashEntry h iPtr) = compileEpoch iPtr"
  "evlog (Tcl_DeleteHashEntry h iPtr) = evlog iPtr"
  "result (Tcl_DeleteHashEntry h iPtr) = result iPtr"
  "ext (Tcl_DeleteHashEntry h iPtr) = ext iPtr"
  "globalNsPtr (Tcl_DeleteHashEntry h iPtr) = globalNsPtr iPtr"
  by (simp_all add: Tcl_DeleteHashEntry_def split: prod.split table_ref.split option.split)

lemma Tcl_DeleteHashEntry_tables:
  "cmdTable (Tcl_DeleteHashEntry (NsCmdTable ns, key) iPtr)
     = (cmdTable iPtr)(ns := (cmdTable iPtr ns)(key := None))"
  "hidden_entries (Tcl_DeleteHashEntry (NsCmdTable ns, key) iPtr) = hidden_entries iPtr"
  "cmdTable (Tcl_DeleteHashEntry (HiddenCmdTable, key) iPtr) = cmdTable iPtr"
  "hidden_entries (Tcl_DeleteHashEntry (HiddenCmdTable, key) iPtr)
     = (hidden_entries iPtr)(key := None)"
  by (simp_all add: Tcl_DeleteHashEntry_def hidden_entries_def split: option.split)

lemma Tcl_SetHashValue_simps [simp]:
  "cmdHeap (Tcl_SetHashValue h v iPtr) = cmdHeap iPtr"
  "compileEpoch (Tcl_SetHashValue h v iPtr) = compileEpoch iPtr"
  "evlog (Tcl_SetHashValue h v iPtr) = evlog iPtr"
  "result (Tcl_SetHashValue h v iPtr) = result iPtr"
  "ext (Tcl_SetHashValue h v iPtr) = ext iPtr"
  "globalNsPtr (Tcl_SetHashValue h v iPtr) = globalNsPtr iPtr"
  by (simp_all add: Tcl_SetHashValue_def split: prod.split table_ref.split)

lemma Tcl_SetHashValue_tables:
  "cmdTable (Tcl_SetHashValue (NsCmdTable ns, key) v iPtr)
     = (cmdTable iPtr)(ns := (cmdTable iPtr ns)(key \<mapsto> v))"
  "hidden_entries (Tcl_SetHashValue (NsCmdTable ns, key) v iPtr) = hidden_entries iPtr"
  "cmdTable (Tcl_SetHashValue (HiddenCmdTable, key) v iPtr) = cmdTable iPtr"
  "hidden_entries (Tcl_SetHashValue (HiddenCmdTable, key) v iPtr)
     = (hidden_entries iPtr)(key \<mapsto> v)"
  by (simp_all add: Tcl_SetHashValue_def hidden_entries_def)

lemma hidden_entries_DeleteHashEntry:
  "dom (hidden_entries (Tcl_DeleteHashEntry h iPtr)) \<subseteq> dom (hidden_entries iPtr)"
  by (cases h; cases "fst h") (auto simp: Tcl_DeleteHashEntry_tables)


lemma codes_distinct [simp]:
  "TCL_OK \<noteq> TCL_ERROR" "TCL_ERROR \<noteq> TCL_OK"
  by (simp_all add: TCL_OK_def TCL_ERROR_def)

lemma Tcl_InitHashTable_hidden_simps [simp]:
  "hidden_entries (Tcl_InitHashTable_hidden iPtr) = hidden_entries iPtr"
  "cmdHeap (Tcl_InitHashTable_hidden iPtr) = cmdHeap iPtr"
  "cmdTable (Tcl_InitHashTable_hidden iPtr) = cmdTable iPtr"
  "compileEpoch (Tcl_InitHashTable_hidden iPtr) = compileEpoch iPtr"
  "evlog (Tcl_InitHashTable_hidden iPtr) = evlog iPtr"
  "result (Tcl_InitHashTable_hidden iPtr) = result iPtr"
  "ext (Tcl_InitHashTable_hidden iPtr) = ext iPtr"
  "globalNsPtr (Tcl_InitHashTable_hidden iPtr) = globalNsPtr iPtr"
  by (simp_all add: Tcl_InitHashTable_hidden_def hidden_entries_def split: option.split)


subsection \<open>Substring search\<close>

lemma strstr_None_iff: "strstr h n = None \<longleftrightarrow> (\<forall>a b. h \<noteq> a @ n @ b)"
proof (induction h)
  case Nil
  then show ?case by auto
next
  case (Cons c cs)
  show ?case
  proof (cases "take (length n) (c # cs) = n")
    case True
    then have "c # cs = [] @ n @ drop (length n) (c # cs)"
      by (metis append_Nil append_take_drop_id)
    then show ?thesis using True by (auto simp del: append_Nil)
  next
    case False
    have "(\<exists>a b. c # cs = a @ n @ b) \<longleftrightarrow> (\<exists>a b. cs = a @ n @ b)"
    proof
      assume "\<exists>a b. c # cs = a @ n @ b"
      then obtain a b where ab: "c # cs = a @ n @ b" by blast
      show "\<exists>a b. cs = a @ n @ b"
      proof (cases a)
        case Nil
        with ab have "take (length n) (c # cs) = n" by simp
        with False show ?thesis by simp
      next
        case (Cons x xs)
        with ab have "cs = xs @ n @ b" by simp
        then show ?thesis by blast
      qed
    next
      assume "\<exists>a b. cs = a @ n @ b"
      then obtain a b where "cs = a @ n @ b" by blast
      then have "c # cs = (c # a) @ n @ b" by simp
      then show "\<exists>a b. c # cs = a @ n @ b" by blast
    qed
    with False Cons show ?thesis by auto
  qed
qed


subsection \<open>Deleting a command whose deletion is in progress\<close>



subsection \<open>Tcl_HideCommand\<close>

lemma hide_code:
  "fst (Tcl_HideCommand env cmdName tok iPtr)
     = (if hide_ok env cmdName tok iPtr then TCL_OK else TCL_ERROR)"
  by (cases "Tcl_FindCommand env iPtr cmdName (TCL_LEAVE_ERR_MSG OR TCL_GLOBAL_ONLY)";
      cases "fst (Tcl_FindCommand env iPtr cmdName (TCL_LEAVE_ERR_MSG OR TCL_GLOBAL_ONLY))")
     (auto simp add: Tcl_HideCommand_def hide_ok_def Let_def Tcl_FindHashEntry_def)

lemma hide_err_state:
  assumes "\<not> hide_ok env cmdName tok iPtr"
  shows "cmdHeap (snd (Tcl_HideCommand env cmdName tok iPtr)) = cmdHeap iPtr"
    and "cmdTable (snd (Tcl_HideCommand env cmdName tok iPtr)) = cmdTable iPtr"
    and "hidden_entries (snd (Tcl_HideCommand env cmdName tok iPtr)) = hidden_entries iPtr"
    and "compileEpoch (snd (Tcl_HideCommand env cmdName tok iPtr)) = compileEpoch iPtr"
  using assms
  by (cases "Tcl_FindCommand env iPtr cmdName (TCL_LEAVE_ERR_MSG OR TCL_GLOBAL_ONLY)";
      cases "fst (Tcl_FindCommand env iPtr cmdName (TCL_LEAVE_ERR_MSG OR TCL_GLOBAL_ONLY))";
      auto simp add: Tcl_HideCommand_def hide_ok_def Let_def Tcl_FindHashEntry_def)+

lemma hide_ok_state:
  assumes "hide_ok env cmdName tok iPtr"
    and "fst (Tcl_FindCommand env iPtr cmdName (TCL_LEAVE_ERR_MSG OR TCL_GLOBAL_ONLY)) = Some p"
  shows "hidden_entries (snd (Tcl_HideCommand env cmdName tok iPtr)) tok = Some p"
    and "dom (hidden_entries (snd (Tcl_HideCommand env cmdName tok iPtr)))
            \<subseteq> insert tok (dom (hidden_entries iPtr))"
proof -
  obtain r where f: "Tcl_FindCommand env iPtr cmdName (TCL_LEAVE_ERR_MSG OR TCL_GLOBAL_ONLY) = (Some p, r)"
    using assms(2) by (cases "Tcl_FindCommand env iPtr cmdName (TCL_LEAVE_ERR_MSG OR TCL_GLOBAL_ONLY)") auto
  show "hidden_entries (snd (Tcl_HideCommand env cmdName tok iPtr)) tok = Some p"
    using assms(1) f
    by (simp add: Tcl_HideCommand_def hide_ok_def Let_def Tcl_FindHashEntry_def Tcl_SetHashValue_tables)
  show "dom (hidden_entries (snd (Tcl_HideCommand env cmdName tok iPtr)))
            \<subseteq> insert tok (dom (hidden_entries iPtr))"
  proof (cases "hPtr (cmdHeap iPtr p)")
    case None
    then show ?thesis using assms(1) f
      by (simp add: Tcl_HideCommand_def hide_ok_def Let_def Tcl_FindHashEntry_def
          Tcl_SetHashValue_tables)
  next
    case (Some h)
    then show ?thesis using assms(1) f
        hidden_entries_DeleteHashEntry [of h "Tcl_InitHashTable_hidden (iPtr\<lparr>result := r\<rparr>)"]
      by (simp add: Tcl_HideCommand_def hide_ok_def Let_def Tcl_FindHashEntry_def
          Tcl_SetHashValue_tables) blast
  qed
qed


text \<open>
  C6. \<^verbatim>\<open>Tcl_HideCommand\<close> returns \<^verbatim>\<open>TCL_OK\<close> only when the interpreter is not
  being deleted, the token contains no \<open>::\<close>, the name resolves to a command whose
  namespace is the global namespace, and the hidden table has no entry under the token;
  the command is then stored under the token. In every other case it returns
  \<^verbatim>\<open>TCL_ERROR\<close> with the Command structures, the command tables, the entries of the
  hidden table and the compile epoch as they were. Hence, when no key of the hidden table
  contains \<open>::\<close> before the call, none does after it.
\<close>

theorem Tcl_HideCommand_guards:
  "(fst (Tcl_HideCommand env cmdName tok iPtr) = TCL_OK \<longrightarrow>
      interpFlags iPtr AND DELETED = 0
      \<and> strstr tok ''::'' = None
      \<and> (\<exists>p. fst (Tcl_FindCommand env iPtr cmdName (TCL_LEAVE_ERR_MSG OR TCL_GLOBAL_ONLY)) = Some p
             \<and> nsPtr (cmdHeap iPtr p) = globalNsPtr iPtr
             \<and> hidden_entries (snd (Tcl_HideCommand env cmdName tok iPtr)) tok = Some p)
      \<and> hidden_entries iPtr tok = None)
   \<and> (fst (Tcl_HideCommand env cmdName tok iPtr) \<noteq> TCL_OK \<longrightarrow>
        fst (Tcl_HideCommand env cmdName tok iPtr) = TCL_ERROR
        \<and> cmdHeap (snd (Tcl_HideCommand env cmdName tok iPtr)) = cmdHeap iPtr
        \<and> cmdTable (snd (Tcl_HideCommand env cmdName tok iPtr)) = cmdTable iPtr
        \<and> hidden_entries (snd (Tcl_HideCommand env cmdName tok iPtr)) = hidden_entries iPtr
        \<and> compileEpoch (snd (Tcl_HideCommand env cmdName tok iPtr)) = compileEpoch iPtr)
   \<and> ((\<forall>k \<in> dom (hidden_entries iPtr). strstr k ''::'' = None) \<longrightarrow>
        (\<forall>k \<in> dom (hidden_entries (snd (Tcl_HideCommand env cmdName tok iPtr))).
            strstr k ''::'' = None))"
proof (cases "hide_ok env cmdName tok iPtr")
  case True
  then obtain p where
    p: "fst (Tcl_FindCommand env iPtr cmdName (TCL_LEAVE_ERR_MSG OR TCL_GLOBAL_ONLY)) = Some p"
       "nsPtr (cmdHeap iPtr p) = globalNsPtr iPtr"
    by (auto simp: hide_ok_def)
  from True have g: "interpFlags iPtr AND DELETED = 0" "strstr tok ''::'' = None"
    "hidden_entries iPtr tok = None" by (auto simp: hide_ok_def)
  note st = hide_ok_state [OF True p(1)]
  have inv: "(\<forall>k \<in> dom (hidden_entries iPtr). strstr k ''::'' = None) \<longrightarrow>
        (\<forall>k \<in> dom (hidden_entries (snd (Tcl_HideCommand env cmdName tok iPtr))).
            strstr k ''::'' = None)"
    using st(2) g(2) by blast
  show ?thesis using True p g st(1) inv by (simp add: hide_code)
next
  case False
  note st = hide_err_state [OF False]
  show ?thesis using False by (simp add: hide_code st)
qed

theorem Tcl_HideCommand_guards_witness:
  "fst (Tcl_HideCommand env0 ''exec'' ''exec'' interp1) = TCL_OK
   \<and> hidden_entries (snd (Tcl_HideCommand env0 ''exec'' ''exec'' interp1)) ''exec'' = Some 1
   \<and> dom (hidden_entries (snd (Tcl_HideCommand env0 ''exec'' ''exec'' interp1))) \<noteq> {}
   \<and> dom (hidden_entries (snd (Tcl_HideCommand env0 ''exec'' ''exec'' interp1)))
        \<subseteq> {k. strstr k ''::'' = None}
   \<and> fst (Tcl_HideCommand env0 ''exec'' ''a::b'' interp1) = TCL_ERROR
   \<and> cmdTable (snd (Tcl_HideCommand env0 ''exec'' ''a::b'' interp1)) = cmdTable interp1"
proof -
  have f: "fst (Tcl_FindCommand env0 interp1 ''exec'' (TCL_LEAVE_ERR_MSG OR TCL_GLOBAL_ONLY)) = Some 1"
    by (simp add: env0_def interp1_def interp0_def)
  have ok: "fst (Tcl_HideCommand env0 ''exec'' ''exec'' interp1) = TCL_OK"
    by (simp add: hide_code hide_ok_def f)
       (simp add: interp1_def interp0_def cmd0_def hidden_entries_def)
  have err: "fst (Tcl_HideCommand env0 ''exec'' ''a::b'' interp1) \<noteq> TCL_OK"
    by (simp add: hide_code hide_ok_def)
  have inv: "\<forall>k \<in> dom (hidden_entries interp1). strstr k ''::'' = None"
    by (simp add: interp1_def interp0_def hidden_entries_def)
  from Tcl_HideCommand_guards [of env0 "''exec''" "''exec''" interp1] ok f inv
  have a: "hidden_entries (snd (Tcl_HideCommand env0 ''exec'' ''exec'' interp1)) ''exec'' = Some 1"
    and b: "\<forall>k \<in> dom (hidden_entries (snd (Tcl_HideCommand env0 ''exec'' ''exec'' interp1))).
         strstr k ''::'' = None"
    by auto
  from Tcl_HideCommand_guards [of env0 "''exec''" "''a::b''" interp1] err
  have c: "fst (Tcl_HideCommand env0 ''exec'' ''a::b'' interp1) = TCL_ERROR"
    and d: "cmdTable (snd (Tcl_HideCommand env0 ''exec'' ''a::b'' interp1)) = cmdTable interp1"
    by auto
  show ?thesis using ok a b c d by auto
qed


subsection \<open>TclRenameCommand: a failed rename changes nothing\<close>

lemma Tcl_DeleteHashEntry_ns_hidden [simp]:
  "hiddenCmdTablePtr (Tcl_DeleteHashEntry (NsCmdTable ns, key) iPtr) = hiddenCmdTablePtr iPtr"
  by (simp add: Tcl_DeleteHashEntry_def)

lemma TclRenameCommand_provisional_simps:
  "cmdHeap (TclRenameCommand_provisional env p ns nm iPtr)
     = (cmdHeap iPtr)(p := (cmdHeap iPtr p)\<lparr>hPtr := Some (NsCmdTable ns, nm), nsPtr := ns\<rparr>)"
  "cmdTable (TclRenameCommand_provisional env p ns nm iPtr)
     = (cmdTable iPtr)(ns := (cmdTable iPtr ns)(nm \<mapsto> p))"
  "hiddenCmdTablePtr (TclRenameCommand_provisional env p ns nm iPtr) = hiddenCmdTablePtr iPtr"
  "compileEpoch (TclRenameCommand_provisional env p ns nm iPtr) = compileEpoch iPtr"
  "evlog (TclRenameCommand_provisional env p ns nm iPtr) = evlog iPtr"
  by (simp_all add: TclRenameCommand_provisional_def Let_def Tcl_SetHashValue_tables
      Tcl_SetHashValue_def upd_cmd_def)

text \<open>
  C1. Let the old name resolve to a command, the new name be non-empty and resolve to a
  namespace and a tail. If the table of that namespace already has an entry under the
  tail, or the alias loop check rejects the provisional move, then
  \<^verbatim>\<open>TclRenameCommand\<close> returns \<^verbatim>\<open>TCL_ERROR\<close> and every Command structure (with its
  entry pointer, namespace and epoch), every command table, the hidden table, the compile
  epoch and the log are exactly as before the call.
\<close>

theorem TclRenameCommand_failure_rollback:
  assumes found: "Tcl_FindCommand env iPtr oldName 0 = (Some cmdPtr, r)"
    and nonempty: "newName \<noteq> []"
    and dest: "TclGetNamespaceForQualName env (iPtr\<lparr>result := r\<rparr>) newName
                 TCL_CREATE_NS_IF_UNKNOWN = (x, Some newNsPtr, Some newTail)"
    and fail: "cmdTable iPtr newNsPtr newTail \<noteq> None
               \<or> fst (TclPreventAliasLoop env
                        (TclRenameCommand_provisional env cmdPtr newNsPtr newTail
                           (iPtr\<lparr>result := r, ext := x\<rparr>)) cmdPtr) = TCL_ERROR"
  shows "\<exists>iPtr'. TclRenameCommand fuel env oldName newName iPtr = Some (TCL_ERROR, iPtr')
     \<and> cmdHeap iPtr' = cmdHeap iPtr
     \<and> cmdTable iPtr' = cmdTable iPtr
     \<and> hiddenCmdTablePtr iPtr' = hiddenCmdTablePtr iPtr
     \<and> compileEpoch iPtr' = compileEpoch iPtr
     \<and> evlog iPtr' = evlog iPtr"
proof (cases "cmdTable iPtr newNsPtr newTail")
  case (Some q)
  then show ?thesis using found nonempty dest
    by (simp add: TclRenameCommand_def Let_def Tcl_FindHashEntry_def)
next
  case None
  with fail have al: "fst (TclPreventAliasLoop env
                        (TclRenameCommand_provisional env cmdPtr newNsPtr newTail
                           (iPtr\<lparr>result := r, ext := x\<rparr>)) cmdPtr) = TCL_ERROR" by simp
  obtain r' where pa: "TclPreventAliasLoop env
                        (TclRenameCommand_provisional env cmdPtr newNsPtr newTail
                           (iPtr\<lparr>result := r, ext := x\<rparr>)) cmdPtr = (TCL_ERROR, r')"
    using al by (metis prod.collapse)
  have tbl: "(cmdTable iPtr)(newNsPtr := (cmdTable iPtr newNsPtr)(newTail := None)) = cmdTable iPtr"
    using None by (simp add: fun_upd_idem)
  have hp: "(cmdHeap iPtr)(cmdPtr := cmdHeap iPtr cmdPtr) = cmdHeap iPtr" by simp
  show ?thesis using found nonempty dest None pa
    by (simp add: TclRenameCommand_def Let_def Tcl_FindHashEntry_def
        TclRenameCommand_provisional_simps Tcl_DeleteHashEntry_tables tbl)
qed

theorem TclRenameCommand_failure_rollback_witness:
  "(\<exists>iPtr'. TclRenameCommand 1 env0 ''cmdA'' ''cmdB'' interp2 = Some (TCL_ERROR, iPtr')
      \<and> cmdHeap iPtr' = cmdHeap interp2 \<and> cmdTable iPtr' = cmdTable interp2
      \<and> compileEpoch iPtr' = 0)
   \<and> (\<exists>iPtr'. TclRenameCommand 1 env_alias_loop ''cmdA'' ''cmdC'' interp2 = Some (TCL_ERROR, iPtr')
      \<and> cmdHeap iPtr' = cmdHeap interp2 \<and> cmdTable iPtr' = cmdTable interp2
      \<and> compileEpoch iPtr' = 0)"
proof -
  have f1: "Tcl_FindCommand env0 interp2 ''cmdA'' 0 = (Some 1, [])"
    by (simp add: env0_def interp2_def interp0_def)
  have d1: "TclGetNamespaceForQualName env0 (interp2\<lparr>result := []\<rparr>) ''cmdB''
                 TCL_CREATE_NS_IF_UNKNOWN = ((), Some 0, Some ''cmdB'')"
    by (simp add: env0_def interp2_def interp0_def)
  have e1: "cmdTable interp2 0 ''cmdB'' \<noteq> None"
    by (simp add: interp2_def interp0_def)
  have c: "compileEpoch interp2 = 0" by (simp add: interp2_def interp0_def)
  have f2: "Tcl_FindCommand env_alias_loop interp2 ''cmdA'' 0 = (Some 1, [])"
    by (simp add: env_alias_loop_def env0_def interp2_def interp0_def)
  have d2: "TclGetNamespaceForQualName env_alias_loop (interp2\<lparr>result := []\<rparr>) ''cmdC''
                 TCL_CREATE_NS_IF_UNKNOWN = ((), Some 0, Some ''cmdC'')"
    by (simp add: env_alias_loop_def env0_def interp2_def interp0_def)
  have e2: "fst (TclPreventAliasLoop env_alias_loop
                        (TclRenameCommand_provisional env_alias_loop 1 0 ''cmdC''
                           (interp2\<lparr>result := [], ext := ()\<rparr>)) 1) = TCL_ERROR"
    by (simp add: env_alias_loop_def env0_def)
  from TclRenameCommand_failure_rollback [OF f1 _ d1, of 1] e1
  have a: "\<exists>iPtr'. TclRenameCommand 1 env0 ''cmdA'' ''cmdB'' interp2 = Some (TCL_ERROR, iPtr')
      \<and> cmdHeap iPtr' = cmdHeap interp2 \<and> cmdTable iPtr' = cmdTable interp2
      \<and> compileEpoch iPtr' = 0" by (simp add: c) blast
  from TclRenameCommand_failure_rollback [OF f2 _ d2, of 1] e2
  have b: "\<exists>iPtr'. TclRenameCommand 1 env_alias_loop ''cmdA'' ''cmdC'' interp2 = Some (TCL_ERROR, iPtr')
      \<and> cmdHeap iPtr' = cmdHeap interp2 \<and> cmdTable iPtr' = cmdTable interp2
      \<and> compileEpoch iPtr' = 0" by (simp add: c) blast
  show ?thesis using a b by blast
qed


subsection \<open>Tcl_CreateObjCommand over an existing command\<close>

lemma log_event_simps [simp]:
  "cmdHeap (log_event e iPtr) = cmdHeap iPtr"
  "cmdTable (log_event e iPtr) = cmdTable iPtr"
  "hiddenCmdTablePtr (log_event e iPtr) = hiddenCmdTablePtr iPtr"
  "hidden_entries (log_event e iPtr) = hidden_entries iPtr"
  "compileEpoch (log_event e iPtr) = compileEpoch iPtr"
  "evlog (log_event e iPtr) = evlog iPtr @ [e]"
  "result (log_event e iPtr) = result iPtr"
  "ext (log_event e iPtr) = ext iPtr"
  "realCmdPtr (log_event e iPtr) = realCmdPtr iPtr"
  "globalNsPtr (log_event e iPtr) = globalNsPtr iPtr"
  by (simp_all add: log_event_def hidden_entries_def)

lemma callback_simps [simp]:
  "evlog (callback e f iPtr) = evlog iPtr @ [e]"
  "cmdHeap (callback e f iPtr) = cmdHeap (f iPtr)"
  "cmdTable (callback e f iPtr) = cmdTable (f iPtr)"
  "compileEpoch (callback e f iPtr) = compileEpoch (f iPtr)"
  "ext (callback e f iPtr) = ext (f iPtr)"
  by (simp_all add: callback_def)

lemma more_proj [simp]:
  "realCmdPtr (upd_cmd p f iPtr) = realCmdPtr iPtr"
  "realCmdPtr (Tcl_SetHashValue h v iPtr) = realCmdPtr iPtr"
  "realCmdPtr (Tcl_DeleteHashEntry h iPtr) = realCmdPtr iPtr"
  by (simp_all add: upd_cmd_def Tcl_SetHashValue_def Tcl_DeleteHashEntry_def
      split: prod.split table_ref.split option.split)

lemma relink_imports_simps [simp]:
  "cmdHeap (relink_imports q refs iPtr) = cmdHeap iPtr"
  "cmdTable (relink_imports q refs iPtr) = cmdTable iPtr"
  "evlog (relink_imports q refs iPtr) = evlog iPtr"
  "ext (relink_imports q refs iPtr) = ext iPtr"
  by (induction refs arbitrary: iPtr; simp)+



lemma same_core_refl [simp]: "same_core c c"
  by (simp add: same_core_def)


lemma same_core_flags [simp]:
  "same_core c (c'\<lparr>flags := fl\<rparr>) = same_core c c'"
  "same_core c (c'\<lparr>refCount := rc\<rparr>) = same_core c c'"
  "same_core c (c'\<lparr>tracePtr := ts\<rparr>) = same_core c c'"
  "same_core c (c'\<lparr>refCount := rc, flags := fl\<rparr>) = same_core c c'"
  by (simp_all add: same_core_def)

lemma free_traces_simps [simp]:
  "cmdHeap (free_traces ts iPtr) = cmdHeap iPtr"
  "compileEpoch (free_traces ts iPtr) = compileEpoch iPtr"
  "ext (free_traces ts iPtr) = ext iPtr"
  by (induction ts arbitrary: iPtr; simp)+






lemma TclCleanupCommand_simps [simp]:
  "cmdHeap (TclCleanupCommand p iPtr)
     = (cmdHeap iPtr)(p := (cmdHeap iPtr p)\<lparr>refCount := refCount (cmdHeap iPtr p) - 1\<rparr>)"
  "cmdTable (TclCleanupCommand p iPtr) = cmdTable iPtr"
  "compileEpoch (TclCleanupCommand p iPtr) = compileEpoch iPtr"
  "set (evlog iPtr) \<subseteq> set (evlog (TclCleanupCommand p iPtr))"
  by (auto simp add: TclCleanupCommand_def Let_def)














subsection \<open>TclInterpReady and the empty word list\<close>

lemma reset_keeps_DELETED:
  "(f AND NOT ERR_ALREADY_LOGGED) AND DELETED = f AND DELETED"
proof -
  have "NOT ERR_ALREADY_LOGGED AND DELETED = DELETED"
    by (simp add: ERR_ALREADY_LOGGED_def DELETED_def)
  then show ?thesis by (metis and.assoc)
qed

lemma Tcl_ResetResult_simps [simp]:
  "result (Tcl_ResetResult env iPtr) = []"
  "evlog (Tcl_ResetResult env iPtr) = evlog iPtr"
  "cmdCount (Tcl_ResetResult env iPtr) = cmdCount iPtr"
  "cmdHeap (Tcl_ResetResult env iPtr) = cmdHeap iPtr"
  "cmdTable (Tcl_ResetResult env iPtr) = cmdTable iPtr"
  "numLevels (Tcl_ResetResult env iPtr) = numLevels iPtr"
  "maxNestingDepth (Tcl_ResetResult env iPtr) = maxNestingDepth iPtr"
  "interpFlags (Tcl_ResetResult env iPtr) AND DELETED = interpFlags iPtr AND DELETED"
  "varFramePtr (Tcl_ResetResult env iPtr) = varFramePtr iPtr"
  "interpTracePtr (Tcl_ResetResult env iPtr) = interpTracePtr iPtr"
  "evalFlags (Tcl_ResetResult env iPtr) = evalFlags iPtr"
  by (simp_all add: Tcl_ResetResult_def reset_keeps_DELETED)

lemma TclInterpReady_ok:
  assumes "interpFlags iPtr AND DELETED = 0" "\<not> maxNestingDepth iPtr <s numLevels iPtr"
    "TclpCheckStackSpace env \<noteq> 0"
  shows "TclInterpReady env iPtr = (TCL_OK, Tcl_ResetResult env iPtr)"
  using assms by (simp add: TclInterpReady_def Let_def)

text \<open>
  C9, as stated, fails: \<open>interp0\<close> is not marked deleted and its nesting depth (0) is
  within the limit (1000), but when the native stack check of the collaborators reports
  too little space, the dispatcher returns \<^verbatim>\<open>TCL_ERROR\<close> for the empty word list.
\<close>

theorem TclEvalObjvInternal_no_words_counterexample:
  "interpFlags interp0 AND DELETED = 0
   \<and> numLevels interp0 \<le>s maxNestingDepth interp0
   \<and> map_option fst (TclEvalObjvInternal 1 env_nostack [] (Some []) 0 interp0) = Some TCL_ERROR"
  by (simp add: TclInterpReady_def Let_def env_nostack_def env0_def interp0_def
      Tcl_ResetResult_def DELETED_def word_sle_eq word_sless_alt)

text \<open>
  C9, amended. For every interpreter that is not marked deleted, whose nesting depth is
  within the configured limit, and for which the native stack check succeeds, the
  dispatcher called with no words returns \<^verbatim>\<open>TCL_OK\<close> for every positive bound. The
  state it returns is the state after \<^verbatim>\<open>Tcl_ResetResult\<close>: the log is unchanged (no
  name resolution, no trace, no command procedure), and so are the command counter, the
  Command structures and the command tables.
\<close>

theorem TclEvalObjvInternal_no_words:
  assumes "interpFlags iPtr AND DELETED = 0"
    and "numLevels iPtr \<le>s maxNestingDepth iPtr"
    and "TclpCheckStackSpace env \<noteq> 0"
  shows "TclEvalObjvInternal (Suc n) env [] command fl iPtr
           = Some (TCL_OK, Tcl_ResetResult env iPtr)
     \<and> evlog (Tcl_ResetResult env iPtr) = evlog iPtr
     \<and> cmdCount (Tcl_ResetResult env iPtr) = cmdCount iPtr
     \<and> cmdHeap (Tcl_ResetResult env iPtr) = cmdHeap iPtr
     \<and> cmdTable (Tcl_ResetResult env iPtr) = cmdTable iPtr"
proof -
  have "\<not> maxNestingDepth iPtr <s numLevels iPtr"
    using assms(2) by (simp add: word_sle_eq word_sless_alt)
  from TclInterpReady_ok [OF assms(1) this assms(3)] show ?thesis by simp
qed

theorem TclEvalObjvInternal_no_words_witness:
  "TclEvalObjvInternal 1 env0 [] (Some []) 0 interp0 = Some (TCL_OK, Tcl_ResetResult env0 interp0)
   \<and> evlog (Tcl_ResetResult env0 interp0) = []
   \<and> cmdCount (Tcl_ResetResult env0 interp0) = 0"
proof -
  have a: "interpFlags interp0 AND DELETED = 0" by (simp add: interp0_def)
  have b: "numLevels interp0 \<le>s maxNestingDepth interp0"
    by (simp add: interp0_def word_sle_eq)
  have c: "TclpCheckStackSpace env0 \<noteq> 0" by (simp add: env0_def)
  from TclEvalObjvInternal_no_words [OF a b c, of 0 "Some []" 0]
  show ?thesis by (simp add: interp0_def)
qed


subsection \<open>The unknown-command fallback\<close>

lemma TclInterpReady_too_deep:
  assumes "interpFlags iPtr AND DELETED = 0" "maxNestingDepth iPtr <s numLevels iPtr"
  shows "TclInterpReady env iPtr
           = (TCL_ERROR,
              Tcl_AppendResult ''too many nested evaluations (infinite loop?)''
                (Tcl_ResetResult env iPtr))"
  using assms by (simp add: TclInterpReady_def Let_def)

text \<open>
  C5. Let the interpreter be ready (not deleted, depth within the limit, stack check
  passed) and let the first word \<open>w\<close> resolve to no command at the first pass. If
  \<open>::unknown\<close> resolves to no command either, the dispatcher returns \<^verbatim>\<open>TCL_ERROR\<close> and
  the interpreter result is exactly \<open>invalid command name "w"\<close>; no command was counted.
  If \<open>::unknown\<close> resolves, the result is that of the dispatcher itself, called on the
  word list with \<open>::unknown\<close> put in front, with flags 0 and with the nesting level
  incremented (and decremented again afterwards); that call passes through
  \<^verbatim>\<open>TclInterpReady\<close> like any other, so when the incremented level exceeds the limit
  the evaluation ends with the error \<open>too many nested evaluations (infinite loop?)\<close>.
\<close>

theorem TclEvalObjvInternal_unknown_fallback:
  assumes live: "interpFlags iPtr AND DELETED = 0"
    and depth: "numLevels iPtr \<le>s maxNestingDepth iPtr"
    and stack: "TclpCheckStackSpace env \<noteq> 0"
    and nf: "TclEvalObjvInternal_lookup env fl w (log_event EvPass (Tcl_ResetResult env iPtr))
               = None"
    and iB: "iB = log_event (EvGetCommand w) (log_event EvPass (Tcl_ResetResult env iPtr))"
    and iC: "iC = log_event (EvGetCommand ''::unknown'') iB"
  shows "(Tcl_GetCommandFromObj env iB ''::unknown'' = None \<longrightarrow>
            (\<exists>iPtr'. TclEvalObjvInternal (Suc (Suc n)) env (w # ws) command fl iPtr
                        = Some (TCL_ERROR, iPtr')
                \<and> result iPtr' = ''invalid command name '' @ [CHR 0x22] @ w @ [CHR 0x22]
                \<and> cmdCount iPtr' = cmdCount iPtr))
     \<and> (Tcl_GetCommandFromObj env iB ''::unknown'' \<noteq> None \<longrightarrow>
            TclEvalObjvInternal (Suc (Suc n)) env (w # ws) command fl iPtr
              = (case TclEvalObjvInternal n env (''::unknown'' # w # ws) command 0
                        (iC\<lparr>numLevels := numLevels iPtr + 1, evlog := []\<rparr>) of
                   None \<Rightarrow> None
                 | Some (code, iD) \<Rightarrow>
                     Some (code, iD\<lparr>numLevels := numLevels iD - 1,
                                    evlog := evlog iC @ [EvNested (evlog iD)]\<rparr>))
            \<and> (maxNestingDepth iPtr <s numLevels iPtr + 1 \<and> 0 < n \<longrightarrow>
                 (\<exists>iPtr'. TclEvalObjvInternal (Suc (Suc n)) env (w # ws) command fl iPtr
                             = Some (TCL_ERROR, iPtr')
                     \<and> result iPtr' = ''too many nested evaluations (infinite loop?)''
                     \<and> numLevels iPtr' = numLevels iPtr)))"
proof -
  have nd: "\<not> maxNestingDepth iPtr <s numLevels iPtr"
    using depth by (simp add: word_sle_eq word_sless_alt)
  have ready: "TclInterpReady env iPtr = (TCL_OK, Tcl_ResetResult env iPtr)"
    by (rule TclInterpReady_ok [OF live nd stack])
  have unf: "TclEvalObjvInternal (Suc (Suc n)) env (w # ws) command fl iPtr
     = (case Tcl_GetCommandFromObj env iB ''::unknown'' of
          None \<Rightarrow> Some (TCL_ERROR,
                        Tcl_AppendResult (''invalid command name '' @ [CHR 0x22] @ w @ [CHR 0x22]) iC)
        | Some u \<Rightarrow>
            (case TclEvalObjvInternal n env (''::unknown'' # w # ws) command 0
                        (iC\<lparr>numLevels := numLevels iC + 1, evlog := []\<rparr>) of
                   None \<Rightarrow> None
                 | Some (code, iD) \<Rightarrow>
                     Some (code, iD\<lparr>numLevels := numLevels iD - 1,
                                    evlog := evlog iC @ [EvNested (evlog iD)]\<rparr>)))"
    unfolding iB iC using nf by (simp add: ready Let_def)
  have nl: "numLevels iC = numLevels iPtr" by (simp add: iC iB log_event_def)
  have cc: "cmdCount iC = cmdCount iPtr" by (simp add: iC iB log_event_def)
  have rs: "result iC = []" by (simp add: iC iB)
  show ?thesis
  proof (intro conjI impI)
    assume "Tcl_GetCommandFromObj env iB ''::unknown'' = None"
    then show "\<exists>iPtr'. TclEvalObjvInternal (Suc (Suc n)) env (w # ws) command fl iPtr
                        = Some (TCL_ERROR, iPtr')
                \<and> result iPtr' = ''invalid command name '' @ [CHR 0x22] @ w @ [CHR 0x22]
                \<and> cmdCount iPtr' = cmdCount iPtr"
      unfolding unf by (simp add: rs cc Tcl_AppendResult_def)
  next
    assume u: "Tcl_GetCommandFromObj env iB ''::unknown'' \<noteq> None"
    then show "TclEvalObjvInternal (Suc (Suc n)) env (w # ws) command fl iPtr
              = (case TclEvalObjvInternal n env (''::unknown'' # w # ws) command 0
                        (iC\<lparr>numLevels := numLevels iPtr + 1, evlog := []\<rparr>) of
                   None \<Rightarrow> None
                 | Some (code, iD) \<Rightarrow>
                     Some (code, iD\<lparr>numLevels := numLevels iD - 1,
                                    evlog := evlog iC @ [EvNested (evlog iD)]\<rparr>))"
      unfolding unf by (auto simp add: nl)
  next
    assume u: "Tcl_GetCommandFromObj env iB ''::unknown'' \<noteq> None"
      and deep: "maxNestingDepth iPtr <s numLevels iPtr + 1 \<and> 0 < n"
    then obtain m where m: "n = Suc m" by (cases n) auto
    let ?j = "iC\<lparr>numLevels := numLevels iC + 1, evlog := []\<rparr>"
    have lj: "interpFlags ?j AND DELETED = 0"
      using live by (simp add: iC iB log_event_def Tcl_ResetResult_def reset_keeps_DELETED)
    have dj: "maxNestingDepth ?j <s numLevels ?j"
      using deep by (simp add: iC iB log_event_def Tcl_ResetResult_def)
    have "TclEvalObjvInternal n env (''::unknown'' # w # ws) command 0 ?j
            = Some (TCL_ERROR,
                    Tcl_AppendResult ''too many nested evaluations (infinite loop?)''
                      (Tcl_ResetResult env ?j))"
      unfolding m by (simp add: TclInterpReady_too_deep [OF lj dj])
    then show "\<exists>iPtr'. TclEvalObjvInternal (Suc (Suc n)) env (w # ws) command fl iPtr
                             = Some (TCL_ERROR, iPtr')
                     \<and> result iPtr' = ''too many nested evaluations (infinite loop?)''
                     \<and> numLevels iPtr' = numLevels iPtr"
      using u unfolding unf by (auto simp add: nl Tcl_AppendResult_def)
  qed
qed

theorem TclEvalObjvInternal_unknown_fallback_witness:
  "(\<exists>iPtr'. TclEvalObjvInternal 2 env0 [''nosuchcmd'', ''1'', ''2''] (Some ''nosuchcmd 1 2'') 0
               interp0 = Some (TCL_ERROR, iPtr')
       \<and> result iPtr' = ''invalid command name '' @ [CHR 0x22] @ ''nosuchcmd'' @ [CHR 0x22])
   \<and> (\<exists>iPtr'. TclEvalObjvInternal 4 env0 [''nosuchcmd'', ''1'', ''2''] (Some ''nosuchcmd 1 2'') 0
               interp4 = Some (TCL_OK, iPtr')
       \<and> evlog iPtr' = [EvPass, EvGetCommand ''nosuchcmd'', EvGetCommand ''::unknown'',
              EvNested [EvPass, EvGetCommand ''::unknown'',
                        EvObjProc 3 [''::unknown'', ''nosuchcmd'', ''1'', ''2'']]]
       \<and> numLevels iPtr' = 0)"
proof -
  have live0: "interpFlags interp0 AND DELETED = 0" by (simp add: interp0_def)
  have depth0: "numLevels interp0 \<le>s maxNestingDepth interp0"
    by (simp add: interp0_def word_sle_eq)
  have stack: "TclpCheckStackSpace env0 \<noteq> 0" by (simp add: env0_def)
  have nf0: "TclEvalObjvInternal_lookup env0 0 ''nosuchcmd''
               (log_event EvPass (Tcl_ResetResult env0 interp0)) = None"
    by (simp add: TclEvalObjvInternal_lookup_def env0_def interp0_def log_event_def
        Tcl_ResetResult_def)
  have u0: "Tcl_GetCommandFromObj env0
              (log_event (EvGetCommand ''nosuchcmd'')
                 (log_event EvPass (Tcl_ResetResult env0 interp0))) ''::unknown'' = None"
    by (simp add: env0_def interp0_def log_event_def Tcl_ResetResult_def)
  from TclEvalObjvInternal_unknown_fallback [OF live0 depth0 stack nf0 refl refl,
      of 0 "[''1'', ''2'']" "Some ''nosuchcmd 1 2''"] u0
  have A: "\<exists>iPtr'. TclEvalObjvInternal 2 env0 [''nosuchcmd'', ''1'', ''2''] (Some ''nosuchcmd 1 2'') 0
               interp0 = Some (TCL_ERROR, iPtr')
       \<and> result iPtr' = ''invalid command name '' @ [CHR 0x22] @ ''nosuchcmd'' @ [CHR 0x22]"
    by (auto simp: numeral_2_eq_2)
  have live4: "interpFlags interp4 AND DELETED = 0" by (simp add: interp4_def interp0_def)
  have depth4: "numLevels interp4 \<le>s maxNestingDepth interp4"
    by (simp add: interp4_def interp0_def word_sle_eq)
  have nf4: "TclEvalObjvInternal_lookup env0 0 ''nosuchcmd''
               (log_event EvPass (Tcl_ResetResult env0 interp4)) = None"
    by (simp add: TclEvalObjvInternal_lookup_def env0_def interp4_def interp0_def log_event_def
        Tcl_ResetResult_def)
  have u4: "Tcl_GetCommandFromObj env0
              (log_event (EvGetCommand ''nosuchcmd'')
                 (log_event EvPass (Tcl_ResetResult env0 interp4))) ''::unknown'' \<noteq> None"
    by (simp add: env0_def interp4_def interp0_def log_event_def Tcl_ResetResult_def)
  have four: "(4::nat) = Suc (Suc 2)" by simp
  from TclEvalObjvInternal_unknown_fallback [OF live4 depth4 stack nf4 refl refl,
      of 2 "[''1'', ''2'']" "Some ''nosuchcmd 1 2''"] u4
  have eq: "TclEvalObjvInternal 4 env0 [''nosuchcmd'', ''1'', ''2''] (Some ''nosuchcmd 1 2'') 0 interp4
      = (case TclEvalObjvInternal 2 env0 [''::unknown'', ''nosuchcmd'', ''1'', ''2'']
                (Some ''nosuchcmd 1 2'') 0
                (log_event (EvGetCommand ''::unknown'')
                  (log_event (EvGetCommand ''nosuchcmd'')
                    (log_event EvPass (Tcl_ResetResult env0 interp4)))
                 \<lparr>numLevels := numLevels interp4 + 1, evlog := []\<rparr>) of
                   None \<Rightarrow> None
                 | Some (code, iD) \<Rightarrow>
                     Some (code, iD\<lparr>numLevels := numLevels iD - 1,
                                    evlog := evlog (log_event (EvGetCommand ''::unknown'')
                  (log_event (EvGetCommand ''nosuchcmd'')
                    (log_event EvPass (Tcl_ResetResult env0 interp4)))) @ [EvNested (evlog iD)]\<rparr>))"
    unfolding four by blast
  have B: "\<exists>iPtr'. TclEvalObjvInternal 4 env0 [''nosuchcmd'', ''1'', ''2''] (Some ''nosuchcmd 1 2'') 0
               interp4 = Some (TCL_OK, iPtr')
       \<and> evlog iPtr' = [EvPass, EvGetCommand ''nosuchcmd'', EvGetCommand ''::unknown'',
              EvNested [EvPass, EvGetCommand ''::unknown'',
                        EvObjProc 3 [''::unknown'', ''nosuchcmd'', ''1'', ''2'']]]
       \<and> numLevels iPtr' = 0"
    unfolding eq
    by (simp add: numeral_2_eq_2 TclInterpReady_def Let_def Tcl_ResetResult_def log_event_def
        TclEvalObjvInternal_lookup_def TclEvalObjvInternal_invoke_def callback_code_def
        TclEvalObjvInternal_call_objProc_def TclEvalObjvInternal_leave_traces_def
        TclEvalObjvInternal_enter_traces_def
        TclCleanupCommand_def upd_cmd_def env0_def interp4_def interp0_def cmd0_def
        DELETED_def ERR_ALREADY_LOGGED_def TCL_OK_def TCL_ERROR_def CMD_IS_DELETED_def
        CMD_HAS_EXEC_TRACES_def TCL_EVAL_INVOKE_def TCL_EVAL_GLOBAL_def word_sless_alt
        word_sle_eq)
  show ?thesis using A B by blast
qed


subsection \<open>At most two passes of name resolution\<close>

lemma log_ext_refl [simp]: "log_ext P iPtr iPtr"
  by (simp add: log_ext_def)




lemma log_ext_log_event: "P e \<Longrightarrow> log_ext P iPtr (log_event e iPtr)"
  by (simp add: log_ext_def)


lemma leave_not_enter [simp]: "TCL_TRACE_LEAVE_EXEC \<noteq> TCL_TRACE_ENTER_EXEC"
  by (simp add: TCL_TRACE_LEAVE_EXEC_def TCL_TRACE_ENTER_EXEC_def)





lemma quiet_simps [simp]:
  "quiet_event (EvGetCommand x)" "quiet_event (EvNested y)" "\<not> quiet_event EvPass"
  by (simp_all add: quiet_event_def)












subsection \<open>Tcl_EvalObjv: result codes at the outermost level\<close>

lemma Tcl_AddObjErrorInfo_result [simp]:
  "result (Tcl_AddObjErrorInfo m iPtr) = result iPtr"
  by (simp add: Tcl_AddObjErrorInfo_def Let_def Tcl_SetErrorCode_def split: option.split)

lemma Tcl_LogCommandInfo_result [simp]:
  "result (Tcl_LogCommandInfo env b c l iPtr) = result iPtr"
  by (simp add: Tcl_LogCommandInfo_def Let_def)

lemma ProcessUnexpectedResult_result:
  "result (ProcessUnexpectedResult env c iPtr)
     = (if c = TCL_BREAK
        then ''invoked '' @ [CHR 0x22] @ ''break'' @ [CHR 0x22] @ '' outside of a loop''
        else if c = TCL_CONTINUE
        then ''invoked '' @ [CHR 0x22] @ ''continue'' @ [CHR 0x22] @ '' outside of a loop''
        else ''command returned bad code: '' @ sprintf_d c)"
  by (simp add: ProcessUnexpectedResult_def Let_def Tcl_AppendResult_def Tcl_SetResult_def)

lemma codes_distinct2 [simp]:
  "TCL_BREAK \<noteq> TCL_OK" "TCL_BREAK \<noteq> TCL_ERROR" "TCL_CONTINUE \<noteq> TCL_OK"
  "TCL_CONTINUE \<noteq> TCL_ERROR" "TCL_BREAK \<noteq> TCL_CONTINUE" "TCL_RETURN \<noteq> TCL_OK"
  "TCL_RETURN \<noteq> TCL_ERROR" "TCL_RETURN \<noteq> TCL_BREAK" "TCL_RETURN \<noteq> TCL_CONTINUE"
  "TCL_CONTINUE \<noteq> TCL_BREAK" "TCL_BREAK \<noteq> TCL_RETURN" "TCL_CONTINUE \<noteq> TCL_RETURN"
  "TCL_OK \<noteq> TCL_RETURN" "TCL_ERROR \<noteq> TCL_RETURN" "TCL_OK \<noteq> TCL_BREAK"
  "TCL_ERROR \<noteq> TCL_BREAK" "TCL_OK \<noteq> TCL_CONTINUE" "TCL_ERROR \<noteq> TCL_CONTINUE"
  by (simp_all add: TCL_OK_def TCL_ERROR_def TCL_BREAK_def TCL_CONTINUE_def TCL_RETURN_def)

lemma call_ext_fst [simp]: "fst (call_ext f iPtr) = fst (f iPtr)"
  by (simp add: call_ext_def split: prod.split)

lemma exec_cmdString:
  "Tcl_EvalObjv_cmdString (env_code c) [''exec''] (interp1\<lparr>evalFlags := e, numLevels := n\<rparr>) = []"
  by (simp add: Tcl_EvalObjv_cmdString_def interp1_def interp0_def)

lemma exec_inner_eval:
  "n = 1 \<or> n = 2 \<Longrightarrow>
   \<exists>i2. TclEvalObjvInternal 3 (env_code c) [''exec''] (Some []) 0
           (interp1\<lparr>evalFlags := e, numLevels := n\<rparr>) = Some (c, i2)
        \<and> numLevels i2 = n"
  by (auto simp add: numeral_3_eq_3 TclInterpReady_def Let_def Tcl_ResetResult_def log_event_def
        TclEvalObjvInternal_lookup_def TclEvalObjvInternal_invoke_def callback_code_def
        TclEvalObjvInternal_call_objProc_def TclEvalObjvInternal_leave_traces_def
        TclEvalObjvInternal_enter_traces_def
        TclCleanupCommand_def upd_cmd_def env_code_def env0_def interp1_def interp0_def cmd0_def
        DELETED_def ERR_ALREADY_LOGGED_def TCL_OK_def TCL_ERROR_def CMD_IS_DELETED_def
        CMD_HAS_EXEC_TRACES_def TCL_EVAL_INVOKE_def TCL_EVAL_GLOBAL_def word_sless_alt
        word_sle_eq)

lemma exec_inner:
  assumes "iPtr = interp1\<lparr>evalFlags := e, numLevels := n\<rparr>" and "n = 0 \<or> n = 1"
  shows "\<exists>i2. TclEvalObjvInternal 3 (env_code c) [''exec'']
                 (Some (Tcl_EvalObjv_cmdString (env_code c) [''exec''] iPtr)) 0
                 (iPtr\<lparr>numLevels := numLevels iPtr + 1\<rparr>) = Some (c, i2)
              \<and> numLevels i2 = n + 1"
proof -
  have "n + 1 = 1 \<or> n + 1 = 2" using assms(2) by auto
  from exec_inner_eval [OF this, of c e] show ?thesis
    unfolding assms(1) exec_cmdString by simp
qed

lemma interp1_flat: "interp1 = interp1\<lparr>evalFlags := 0, numLevels := 0\<rparr>"
  by (simp add: interp1_def interp0_def)

lemma interp6_flat: "interp6 = interp1\<lparr>evalFlags := TCL_ALLOW_EXCEPTIONS, numLevels := 0\<rparr>"
  by (simp add: interp6_def interp1_def interp0_def)

lemma env_code_return_info [simp]: "TclUpdateReturnInfo (env_code c) = (\<lambda>iPtr. (TCL_OK, iPtr))"
  by (simp add: env_code_def env0_def)

lemma char_of_55: "char_of (55::nat) = CHR ''7''"
  by code_simp

lemma sprintf_d_7: "sprintf_d 7 = ''7''"
  by (simp add: sprintf_d_def show_nat.simps char_of_55)

text \<open>
  C7, as stated, fails in its last sentence. \<open>interp6\<close> is at nesting depth 0 and has
  \<^verbatim>\<open>TCL_ALLOW_EXCEPTIONS\<close> set, so the caller opted in. The command \<open>exec\<close> returns
  \<^verbatim>\<open>TCL_RETURN\<close>, and that is the code the dispatcher hands back; but \<^verbatim>\<open>Tcl_EvalObjv\<close>
  returns \<^verbatim>\<open>TCL_OK\<close>, the code computed by \<^verbatim>\<open>TclUpdateReturnInfo\<close>: the return code
  is converted at the outermost level whether or not exceptions are allowed.
\<close>

theorem Tcl_EvalObjv_return_with_exceptions_allowed_counterexample:
  "numLevels interp6 = 0
   \<and> evalFlags interp6 AND TCL_ALLOW_EXCEPTIONS = TCL_ALLOW_EXCEPTIONS
   \<and> map_option fst
       (TclEvalObjvInternal 3 (env_code TCL_RETURN) [''exec'']
          (Some (Tcl_EvalObjv_cmdString (env_code TCL_RETURN) [''exec''] interp6)) 0
          (interp6\<lparr>numLevels := numLevels interp6 + 1\<rparr>)) = Some TCL_RETURN
   \<and> map_option fst (Tcl_EvalObjv 3 (env_code TCL_RETURN) [''exec''] 0 interp6) = Some TCL_OK
   \<and> TCL_OK \<noteq> TCL_RETURN"
proof -
  from exec_inner [OF interp6_flat, of TCL_RETURN] obtain i2 where
    i: "TclEvalObjvInternal 3 (env_code TCL_RETURN) [''exec'']
          (Some (Tcl_EvalObjv_cmdString (env_code TCL_RETURN) [''exec''] interp6)) 0
          (interp6\<lparr>numLevels := numLevels interp6 + 1\<rparr>) = Some (TCL_RETURN, i2)"
    and n: "numLevels i2 = 1" by auto
  have f: "evalFlags interp6 AND TCL_ALLOW_EXCEPTIONS = TCL_ALLOW_EXCEPTIONS"
    by (simp add: interp6_def)
  have nz: "TCL_ALLOW_EXCEPTIONS \<noteq> 0" by (simp add: TCL_ALLOW_EXCEPTIONS_def)
  have l: "numLevels interp6 = 0" by (simp add: interp6_def interp1_def interp0_def)
  have "map_option fst (Tcl_EvalObjv 3 (env_code TCL_RETURN) [''exec''] 0 interp6) = Some TCL_OK"
    unfolding Tcl_EvalObjv_def Let_def i option.case prod.case
    by (simp add: n f nz call_ext_def split: prod.split)
  with i f l show ?thesis by (simp add: TCL_OK_def TCL_RETURN_def)
qed

text \<open>
  C7, amended. Let the dispatcher return the code \<open>code\<close> for the words, at depth one
  more than that of the call. Then \<^verbatim>\<open>Tcl_EvalObjv\<close> returns, and:

  \<^item> at a nested level it returns \<open>code\<close> unchanged;
  \<^item> at the outermost level a \<^verbatim>\<open>TCL_RETURN\<close> is first replaced by the code that
    \<^verbatim>\<open>TclUpdateReturnInfo\<close> computes, also when exceptions are allowed; call the
    outcome \<open>c\<close>;
  \<^item> at the outermost level with exceptions allowed it returns \<open>c\<close>;
  \<^item> at the outermost level without, it returns \<open>c\<close> when \<open>c\<close> is \<^verbatim>\<open>TCL_OK\<close> or
    \<^verbatim>\<open>TCL_ERROR\<close>, and otherwise \<^verbatim>\<open>TCL_ERROR\<close> with the result
    \<^verbatim>\<open>invoked "break" outside of a loop\<close> for \<^verbatim>\<open>TCL_BREAK\<close>,
    \<^verbatim>\<open>invoked "continue" outside of a loop\<close> for \<^verbatim>\<open>TCL_CONTINUE\<close>, and
    \<^verbatim>\<open>command returned bad code: N\<close> for any other code \<open>N\<close>.
\<close>

theorem Tcl_EvalObjv_result_codes:
  assumes inner: "TclEvalObjvInternal fuel env objv
                    (Some (Tcl_EvalObjv_cmdString env objv iPtr)) fl
                    (iPtr\<lparr>numLevels := numLevels iPtr + 1\<rparr>) = Some (code, iPtr2)"
    and c: "c = (if code = TCL_RETURN
                 then fst (TclUpdateReturnInfo env (iPtr2\<lparr>numLevels := numLevels iPtr2 - 1\<rparr>))
                 else code)"
  shows "\<exists>code' iPtr'. Tcl_EvalObjv fuel env objv fl iPtr = Some (code', iPtr')
     \<and> (numLevels iPtr2 - 1 \<noteq> 0 \<longrightarrow> code' = code)
     \<and> (numLevels iPtr2 - 1 = 0 \<and> evalFlags iPtr AND TCL_ALLOW_EXCEPTIONS \<noteq> 0 \<longrightarrow> code' = c)
     \<and> (numLevels iPtr2 - 1 = 0 \<and> evalFlags iPtr AND TCL_ALLOW_EXCEPTIONS = 0 \<longrightarrow>
          (c = TCL_OK \<or> c = TCL_ERROR \<longrightarrow> code' = c)
          \<and> (c = TCL_BREAK \<longrightarrow>
                code' = TCL_ERROR
                \<and> result iPtr' = ''invoked '' @ [CHR 0x22] @ ''break'' @ [CHR 0x22]
                                     @ '' outside of a loop'')
          \<and> (c = TCL_CONTINUE \<longrightarrow>
                code' = TCL_ERROR
                \<and> result iPtr' = ''invoked '' @ [CHR 0x22] @ ''continue'' @ [CHR 0x22]
                                     @ '' outside of a loop'')
          \<and> (c \<noteq> TCL_OK \<and> c \<noteq> TCL_ERROR \<and> c \<noteq> TCL_BREAK \<and> c \<noteq> TCL_CONTINUE \<longrightarrow>
                code' = TCL_ERROR
                \<and> result iPtr' = ''command returned bad code: '' @ sprintf_d c))"
proof -
  define i3 where "i3 = iPtr2\<lparr>numLevels := numLevels iPtr2 - 1\<rparr>"
  obtain c1 i4 where s4: "(if numLevels i3 = 0 \<and> code = TCL_RETURN
                           then call_ext (TclUpdateReturnInfo env) i3 else (code, i3)) = (c1, i4)"
    by (metis prod.exhaust)
  obtain c2 i5 where s5: "(if numLevels i3 = 0 \<and> c1 \<noteq> TCL_OK \<and> c1 \<noteq> TCL_ERROR
                              \<and> evalFlags iPtr AND TCL_ALLOW_EXCEPTIONS = 0
                     then (TCL_ERROR, ProcessUnexpectedResult env c1 i4)
                     else (c1, i4)) = (c2, i5)"
    by (metis prod.exhaust)
  define i6 where "i6 = (if c2 = TCL_ERROR \<and> fl AND TCL_EVAL_INVOKE = 0 then
                       let cmdString1 = (if length (Tcl_EvalObjv_cmdString env objv iPtr) = 0
                                         then Tcl_EvalObjv_cmdBuf env objv
                                         else Tcl_EvalObjv_cmdString env objv iPtr)
                       in Tcl_LogCommandInfo env [] cmdString1 (length cmdString1) i5
                     else i5)"
  have unf: "Tcl_EvalObjv fuel env objv fl iPtr = Some (c2, i6)"
    unfolding Tcl_EvalObjv_def Let_def inner option.case prod.case i3_def [symmetric]
    by (simp only: s4 s5 prod.case i6_def Let_def)
  have r6: "result i6 = result i5" by (simp add: i6_def Let_def)
  have n3: "numLevels i3 = numLevels iPtr2 - 1" by (simp add: i3_def)
  have f4: "c1 = fst (if numLevels i3 = 0 \<and> code = TCL_RETURN
                      then call_ext (TclUpdateReturnInfo env) i3 else (code, i3))"
    by (simp only: s4 fst_conv)
  have c1: "numLevels i3 = 0 \<Longrightarrow> c1 = c"
    using f4 c by (simp add: i3_def)
  have c1': "numLevels i3 \<noteq> 0 \<Longrightarrow> c1 = code"
    using s4 by (auto split: if_splits)
  show ?thesis
  proof (intro exI conjI impI)
    show "Tcl_EvalObjv fuel env objv fl iPtr = Some (c2, i6)" by (rule unf)
  next
    assume "numLevels iPtr2 - 1 \<noteq> 0"
    then show "c2 = code" using s5 c1' n3 by (auto split: if_splits)
  next
    assume "numLevels iPtr2 - 1 = 0 \<and> evalFlags iPtr AND TCL_ALLOW_EXCEPTIONS \<noteq> 0"
    then show "c2 = c" using s5 c1 n3 by (auto split: if_splits)
  next
    assume a: "numLevels iPtr2 - 1 = 0 \<and> evalFlags iPtr AND TCL_ALLOW_EXCEPTIONS = 0"
      and "c = TCL_OK \<or> c = TCL_ERROR"
    then show "c2 = c" using s5 c1 n3 by (auto split: if_splits)
  next
    assume a: "numLevels iPtr2 - 1 = 0 \<and> evalFlags iPtr AND TCL_ALLOW_EXCEPTIONS = 0"
      and b: "c = TCL_BREAK"
    with c1 n3 have "c1 = TCL_BREAK" by simp
    with a n3 s5 have e: "c2 = TCL_ERROR" "i5 = ProcessUnexpectedResult env TCL_BREAK i4" by auto
    show "c2 = TCL_ERROR" by (rule e)
    show "result i6 = ''invoked '' @ [CHR 0x22] @ ''break'' @ [CHR 0x22] @ '' outside of a loop''"
      by (simp add: r6 e ProcessUnexpectedResult_result)
  next
    assume a: "numLevels iPtr2 - 1 = 0 \<and> evalFlags iPtr AND TCL_ALLOW_EXCEPTIONS = 0"
      and b: "c = TCL_CONTINUE"
    with c1 n3 have "c1 = TCL_CONTINUE" by simp
    with a n3 s5 have e: "c2 = TCL_ERROR" "i5 = ProcessUnexpectedResult env TCL_CONTINUE i4"
      by auto
    show "c2 = TCL_ERROR" by (rule e)
    show "result i6 = ''invoked '' @ [CHR 0x22] @ ''continue'' @ [CHR 0x22]
                        @ '' outside of a loop''"
      by (simp add: r6 e ProcessUnexpectedResult_result)
  next
    assume a: "numLevels iPtr2 - 1 = 0 \<and> evalFlags iPtr AND TCL_ALLOW_EXCEPTIONS = 0"
      and b: "c \<noteq> TCL_OK \<and> c \<noteq> TCL_ERROR \<and> c \<noteq> TCL_BREAK \<and> c \<noteq> TCL_CONTINUE"
    with c1 n3 have cc: "c1 = c" by simp
    with a b n3 s5 have e: "c2 = TCL_ERROR" "i5 = ProcessUnexpectedResult env c i4" by auto
    show "c2 = TCL_ERROR" by (rule e)
    show "result i6 = ''command returned bad code: '' @ sprintf_d c"
      using b by (simp add: r6 e ProcessUnexpectedResult_result)
  qed
qed


theorem Tcl_EvalObjv_result_codes_witness:
  "(\<exists>iPtr'. Tcl_EvalObjv 3 (env_code TCL_BREAK) [''exec''] 0 interp1 = Some (TCL_ERROR, iPtr')
       \<and> result iPtr' = ''invoked '' @ [CHR 0x22] @ ''break'' @ [CHR 0x22]
                           @ '' outside of a loop'')
   \<and> (\<exists>iPtr'. Tcl_EvalObjv 3 (env_code 7) [''exec''] 0 interp1 = Some (TCL_ERROR, iPtr')
       \<and> result iPtr' = ''command returned bad code: 7'')
   \<and> (\<exists>iPtr'. Tcl_EvalObjv 3 (env_code TCL_RETURN) [''exec''] 0 interp1 = Some (TCL_OK, iPtr'))
   \<and> (\<exists>iPtr'. Tcl_EvalObjv 3 (env_code TCL_BREAK) [''exec''] 0 interp6 = Some (TCL_BREAK, iPtr'))
   \<and> (\<exists>iPtr'. Tcl_EvalObjv 3 (env_code TCL_BREAK) [''exec''] 0 (interp1\<lparr>numLevels := 1\<rparr>)
                 = Some (TCL_BREAK, iPtr'))"
proof -
  note T = Tcl_EvalObjv_result_codes
  have f1: "evalFlags interp1 AND TCL_ALLOW_EXCEPTIONS = 0"
    by (simp add: interp1_def interp0_def)
  have f6: "evalFlags interp6 AND TCL_ALLOW_EXCEPTIONS \<noteq> 0"
    by (simp add: interp6_def TCL_ALLOW_EXCEPTIONS_def)
  have seven: "(7::cint) \<noteq> TCL_OK \<and> 7 \<noteq> TCL_ERROR \<and> 7 \<noteq> TCL_BREAK \<and> 7 \<noteq> TCL_CONTINUE
                 \<and> 7 \<noteq> TCL_RETURN"
    by (simp add: TCL_OK_def TCL_ERROR_def TCL_BREAK_def TCL_CONTINUE_def TCL_RETURN_def)
  from exec_inner [OF interp1_flat, of TCL_BREAK] obtain a where
    a: "TclEvalObjvInternal 3 (env_code TCL_BREAK) [''exec'']
          (Some (Tcl_EvalObjv_cmdString (env_code TCL_BREAK) [''exec''] interp1)) 0
          (interp1\<lparr>numLevels := numLevels interp1 + 1\<rparr>) = Some (TCL_BREAK, a)"
    and na: "numLevels a = 1" by auto
  from T [OF a refl] na f1 have A:
    "\<exists>iPtr'. Tcl_EvalObjv 3 (env_code TCL_BREAK) [''exec''] 0 interp1 = Some (TCL_ERROR, iPtr')
       \<and> result iPtr' = ''invoked '' @ [CHR 0x22] @ ''break'' @ [CHR 0x22]
                           @ '' outside of a loop''"
    by auto
  from exec_inner [OF interp1_flat, of 7] obtain b where
    b: "TclEvalObjvInternal 3 (env_code 7) [''exec'']
          (Some (Tcl_EvalObjv_cmdString (env_code 7) [''exec''] interp1)) 0
          (interp1\<lparr>numLevels := numLevels interp1 + 1\<rparr>) = Some (7, b)"
    and nb: "numLevels b = 1" by auto
  have seven': "(if (7::cint) = TCL_RETURN
                then fst (TclUpdateReturnInfo (env_code 7) (b\<lparr>numLevels := numLevels b - 1\<rparr>))
                else 7) = 7" using seven by simp
  from T [OF b seven' [symmetric]] nb f1 seven have B:
    "\<exists>iPtr'. Tcl_EvalObjv 3 (env_code 7) [''exec''] 0 interp1 = Some (TCL_ERROR, iPtr')
       \<and> result iPtr' = ''command returned bad code: 7''"
    by (auto simp: sprintf_d_7)
  from exec_inner [OF interp1_flat, of TCL_RETURN] obtain c where
    c: "TclEvalObjvInternal 3 (env_code TCL_RETURN) [''exec'']
          (Some (Tcl_EvalObjv_cmdString (env_code TCL_RETURN) [''exec''] interp1)) 0
          (interp1\<lparr>numLevels := numLevels interp1 + 1\<rparr>) = Some (TCL_RETURN, c)"
    and nc: "numLevels c = 1" by auto
  from T [OF c refl] nc f1 have C:
    "\<exists>iPtr'. Tcl_EvalObjv 3 (env_code TCL_RETURN) [''exec''] 0 interp1 = Some (TCL_OK, iPtr')"
    by auto
  from exec_inner [OF interp6_flat, of TCL_BREAK] obtain d where
    d: "TclEvalObjvInternal 3 (env_code TCL_BREAK) [''exec'']
          (Some (Tcl_EvalObjv_cmdString (env_code TCL_BREAK) [''exec''] interp6)) 0
          (interp6\<lparr>numLevels := numLevels interp6 + 1\<rparr>) = Some (TCL_BREAK, d)"
    and nd: "numLevels d = 1" by auto
  from T [OF d refl] nd f6 have D:
    "\<exists>iPtr'. Tcl_EvalObjv 3 (env_code TCL_BREAK) [''exec''] 0 interp6 = Some (TCL_BREAK, iPtr')"
    by auto
  have flat: "interp1\<lparr>numLevels := 1\<rparr> = interp1\<lparr>evalFlags := 0, numLevels := 1\<rparr>"
    by (simp add: interp1_def interp0_def)
  from exec_inner [OF flat, of TCL_BREAK] obtain e where
    e: "TclEvalObjvInternal 3 (env_code TCL_BREAK) [''exec'']
          (Some (Tcl_EvalObjv_cmdString (env_code TCL_BREAK) [''exec'']
                   (interp1\<lparr>numLevels := 1\<rparr>))) 0
          (interp1\<lparr>numLevels := 1\<rparr>\<lparr>numLevels := numLevels (interp1\<lparr>numLevels := 1\<rparr>) + 1\<rparr>)
            = Some (TCL_BREAK, e)"
    and ne: "numLevels e = 2" by auto
  from T [OF e refl] ne have E:
    "\<exists>iPtr'. Tcl_EvalObjv 3 (env_code TCL_BREAK) [''exec''] 0 (interp1\<lparr>numLevels := 1\<rparr>)
                 = Some (TCL_BREAK, iPtr')"
    by auto
  from A B C D E show ?thesis by blast
qed



subsection \<open>Tcl_EvalEx: words marked for expansion\<close>

lemma those_map_Some: "those (map Some xs) = Some xs"
  by (induction xs) simp_all

lemma word_slots_le_cells: "length (word_slots env tv) \<le> word_cells env tv"
  by (simp add: word_cells_def)

lemma word_cells_pos: "1 \<le> word_cells env tv"
  by (cases "word_slots env tv") (simp_all add: word_cells_def)

lemma sum_cells_ge_length: "length tvs \<le> sum_list (map (word_cells env) tvs)"
proof (induction tvs)
  case Nil
  show ?case by simp
next
  case (Cons tv tvs)
  then show ?case using word_cells_pos [of env tv] by simp
qed

lemma flat_le_cells:
  "length (concat (map (word_slots env) tvs)) \<le> sum_list (map (word_cells env) tvs)"
proof (induction tvs)
  case Nil
  show ?case by simp
next
  case (Cons tv tvs)
  then show ?case using word_slots_le_cells [of env tv] by simp
qed

lemma copy_elements_ok:
  "n \<le> length elements \<Longrightarrow> n \<le> q \<Longrightarrow> q \<le> length (st objv) \<Longrightarrow>
   Tcl_EvalEx_copy_elements elements objv n (int q - 1) st
     = Some (int (q - n) - 1,
             st(objv := take (q - n) (st objv) @ map Some (take n elements) @ drop q (st objv)))"
proof (induction n arbitrary: q st)
  case 0
  then show ?case by simp
next
  case (Suc n)
  define q1 where "q1 = q - 1"
  have q: "q = Suc q1" using Suc.prems(2) by (simp add: q1_def)
  define st2 where "st2 = st(objv := (st objv)[q1 := Some (elements ! n)])"
  have l2: "length (st2 objv) = length (st objv)" by (simp add: st2_def)
  have step: "Tcl_EvalEx_copy_elements elements objv (Suc n) (int q - 1) st
                = Tcl_EvalEx_copy_elements elements objv n (int q1 - 1) st2"
    using Suc.prems by (simp add: q st2_def)
  have ih: "Tcl_EvalEx_copy_elements elements objv n (int q1 - 1) st2
     = Some (int (q1 - n) - 1,
             st2(objv := take (q1 - n) (st2 objv) @ map Some (take n elements)
                          @ drop q1 (st2 objv)))"
    using Suc.prems by (intro Suc.IH) (simp_all add: q l2)
  have t: "take (q1 - n) (st2 objv) = take (q - Suc n) (st objv)"
    by (simp add: st2_def q)
  have d: "drop q1 (st2 objv) = Some (elements ! n) # drop q (st objv)"
    using Suc.prems(3) by (simp add: st2_def q upd_conv_take_nth_drop)
  have e: "take (Suc n) elements = take n elements @ [elements ! n]"
    using Suc.prems(1) by (simp add: take_Suc_conv_app_nth)
  show ?case unfolding step ih t d e by (auto simp add: st2_def q fun_eq_iff)
qed



lemma expand_words_step_plain:
  assumes "w < length expnd" "expnd ! w = Some 0" "w < length (st copy)"
    and "st copy ! w = Some v" "1 \<le> q" "q \<le> length (st objv)"
  shows "Tcl_EvalEx_expand_words env expnd copy objv (Suc w) (int q - 1) used st
         = Tcl_EvalEx_expand_words env expnd copy objv w (int (q - 1) - 1) (used + 1)
             (st(objv := (st objv)[q - 1 := Some v]))"
proof -
  have a: "\<not> (length expnd \<le> w \<or> length (st copy) \<le> w)" using assms by simp
  have b: "\<not> (int q - 1 < 0 \<or> int (length (st objv)) \<le> int q - 1)" using assms by simp
  have c: "nat (int q - 1) = q - 1" using assms(5) by simp
  have d: "int q - 1 - 1 = int (q - 1) - 1" using assms(5) by simp
  show ?thesis
    unfolding Tcl_EvalEx_expand_words.simps
    by (simp only: a b c d assms(2,4) if_False if_True prod.case option.case simp_thms)
qed

lemma expand_words_step_expand:
  assumes "w < length expnd" "expnd ! w = Some 1" "w < length (st copy)"
    and "st copy ! w = Some v" "Tcl_ListObjGetElements env v = Some es"
    and "Tcl_EvalEx_copy_elements es objv (length es) (int q - 1) st = Some (j, st1)"
  shows "Tcl_EvalEx_expand_words env expnd copy objv (Suc w) (int q - 1) used st
         = Tcl_EvalEx_expand_words env expnd copy objv w j (used + length es) st1"
proof -
  have a: "\<not> (length expnd \<le> w \<or> length (st copy) \<le> w)" using assms by simp
  have n: "(1::cint) \<noteq> 0" by simp
  show ?thesis
    unfolding Tcl_EvalEx_expand_words.simps
    by (simp only: a n assms(2,4,5,6) if_False if_True prod.case option.case simp_thms)
qed


lemma expand_words_ok:
  assumes "w \<le> length tvs"
    and "\<forall>i<w. i < length expnd \<and> expnd ! i = expand_flag (tvs ! i)"
    and "\<forall>i<w. i < length (st copy) \<and> st copy ! i = Some (snd (tvs ! i))"
    and "\<forall>i<w. fst (tvs ! i) = TCL_TOKEN_EXPAND_WORD
                  \<longrightarrow> Tcl_ListObjGetElements env (snd (tvs ! i)) \<noteq> None"
    and "sum_list (map (word_cells env) (take w tvs)) \<le> q"
    and "q \<le> length (st objv)"
  shows "\<exists>st'. Tcl_EvalEx_expand_words env expnd copy objv w (int q - 1) used st
            = Some (int (q - length (concat (map (word_slots env) (take w tvs)))) - 1,
                    used + length (concat (map (word_slots env) (take w tvs))), st')
          \<and> st' objv = take (q - length (concat (map (word_slots env) (take w tvs)))) (st objv)
                          @ map Some (concat (map (word_slots env) (take w tvs)))
                          @ drop q (st objv)"
  using assms
proof (induction w arbitrary: q used st)
  case 0
  then show ?case by simp
next
  case (Suc w)
  define tv where "tv = tvs ! w"
  define els where "els = word_slots env tv"
  define flat where "flat = concat (map (word_slots env) (take w tvs))"
  define cells where "cells = st objv"
  have w: "w < length tvs" using Suc.prems(1) by simp
  have tk: "take (Suc w) tvs = take w tvs @ [tv]"
    using w by (simp add: take_Suc_conv_app_nth tv_def)
  have flat': "concat (map (word_slots env) (take (Suc w) tvs)) = flat @ els"
    by (simp add: tk flat_def els_def)
  have sum: "sum_list (map (word_cells env) (take w tvs)) + word_cells env tv \<le> q"
    using Suc.prems(5) by (simp add: tk)
  have n_le: "length els \<le> word_cells env tv"
    unfolding els_def by (rule word_slots_le_cells)
  have w_le: "w \<le> sum_list (map (word_cells env) (take w tvs))"
    using sum_cells_ge_length [of "take w tvs" env] w by simp
  have nq: "length els \<le> q" using sum n_le by simp
  have wq: "w \<le> q - length els" using sum n_le w_le by simp
  have qc: "q \<le> length cells" using Suc.prems(6) by (simp add: cells_def)
  have ew: "w < length expnd" "expnd ! w = expand_flag tv"
    using Suc.prems(2) by (simp_all add: tv_def)
  have cw: "w < length (st copy)" "st copy ! w = Some (snd tv)"
    using Suc.prems(3) by (simp_all add: tv_def)
  define st1 where "st1 = st(objv := take (q - length els) cells @ map Some els @ drop q cells)"
  have c1: "st1 objv = take (q - length els) cells @ map Some els @ drop q cells"
    by (simp add: st1_def)
  have l1: "length (st1 objv) = length cells"
    using qc nq by (simp add: c1)
  have step: "Tcl_EvalEx_expand_words env expnd copy objv (Suc w) (int q - 1) used st
        = Tcl_EvalEx_expand_words env expnd copy objv w (int (q - length els) - 1)
            (used + length els) st1"
  proof (cases "fst tv = TCL_TOKEN_EXPAND_WORD")
    case True
    have "Tcl_ListObjGetElements env (snd tv) \<noteq> None"
      using Suc.prems(4) True by (simp add: tv_def)
    then obtain es where es: "Tcl_ListObjGetElements env (snd tv) = Some es" by blast
    have els: "els = es" using True es by (simp add: els_def word_slots_def the_default_def)
    have f: "expnd ! w = Some 1" using ew(2) True by (simp add: expand_flag_def)
    have "Tcl_EvalEx_copy_elements es objv (length es) (int q - 1) st
               = Some (int (q - length es) - 1,
                       st(objv := take (q - length es) (st objv) @ map Some (take (length es) es)
                                     @ drop q (st objv)))"
      using nq Suc.prems(6) by (intro copy_elements_ok) (simp_all add: els)
    then have c: "Tcl_EvalEx_copy_elements es objv (length es) (int q - 1) st
               = Some (int (q - length es) - 1, st1)"
      by (simp add: st1_def els cells_def)
    show ?thesis
      using expand_words_step_expand [OF ew(1) f cw(1) cw(2) es c] by (simp only: els)
  next
    case False
    have els: "els = [snd tv]" using False by (simp add: els_def word_slots_def)
    have f: "expnd ! w = Some 0" using ew(2) False by (simp add: expand_flag_def)
    have q1: "1 \<le> q" using nq by (simp add: els)
    have u: "cells[q - 1 := Some (snd tv)] = take (q - 1) cells @ Some (snd tv) # drop q cells"
      using q1 qc by (simp add: upd_conv_take_nth_drop)
    have s: "st(objv := (st objv)[q - 1 := Some (snd tv)]) = st1"
      unfolding st1_def cells_def [symmetric] u by (simp add: els)
    have le: "length els = 1" by (simp add: els)
    show ?thesis
      using expand_words_step_plain [OF ew(1) f cw(1) cw(2) q1 Suc.prems(6)]
      by (simp only: s le)
  qed
  have copy_kept: "\<forall>i<w. i < length (st1 copy) \<and> st1 copy ! i = Some (snd (tvs ! i))"
  proof (intro allI impI)
    fix i assume i: "i < w"
    have old: "i < length (st copy)" "st copy ! i = Some (snd (tvs ! i))"
      using Suc.prems(3) i by simp_all
    show "i < length (st1 copy) \<and> st1 copy ! i = Some (snd (tvs ! i))"
    proof (cases "copy = objv")
      case True
      have iq: "i < q - length els" using i wq by simp
      have lt: "length (take (q - length els) cells) = q - length els"
        using qc by simp
      have "st1 objv ! i = take (q - length els) cells ! i"
        unfolding c1 using iq lt by (simp only: nth_append if_True)
      also have "\<dots> = cells ! i" using iq by simp
      finally have "st1 objv ! i = cells ! i" .
      then show ?thesis using old True l1 by (simp add: cells_def)
    next
      case False
      then have "st1 copy = st copy" by (simp add: st1_def)
      then show ?thesis using old by simp
    qed
  qed
  have "\<exists>st'. Tcl_EvalEx_expand_words env expnd copy objv w (int (q - length els) - 1)
                   (used + length els) st1
            = Some (int (q - length els - length flat) - 1,
                    used + length els + length flat, st')
          \<and> st' objv = take (q - length els - length flat) (st1 objv)
                          @ map Some flat @ drop (q - length els) (st1 objv)"
    unfolding flat_def
  proof (rule Suc.IH)
    show "w \<le> length tvs" using w by simp
    show "\<forall>i<w. i < length expnd \<and> expnd ! i = expand_flag (tvs ! i)"
      using Suc.prems(2) by simp
    show "\<forall>i<w. i < length (st1 copy) \<and> st1 copy ! i = Some (snd (tvs ! i))"
      by (rule copy_kept)
    show "\<forall>i<w. fst (tvs ! i) = TCL_TOKEN_EXPAND_WORD
                  \<longrightarrow> Tcl_ListObjGetElements env (snd (tvs ! i)) \<noteq> None"
      using Suc.prems(4) by simp
    show "sum_list (map (word_cells env) (take w tvs)) \<le> q - length els"
      using sum n_le by simp
    show "q - length els \<le> length (st1 objv)"
      using l1 qc by simp
  qed
  then obtain st' where
    r: "Tcl_EvalEx_expand_words env expnd copy objv w (int (q - length els) - 1)
                   (used + length els) st1
            = Some (int (q - length els - length flat) - 1,
                    used + length els + length flat, st')"
    and c: "st' objv = take (q - length els - length flat) (st1 objv)
                          @ map Some flat @ drop (q - length els) (st1 objv)"
    by blast
  have t: "take (q - length els - length flat) (st1 objv)
             = take (q - length els - length flat) cells"
    using qc by (simp add: c1)
  have d: "drop (q - length els) (st1 objv) = map Some els @ drop q cells"
    using qc nq by (simp add: c1)
  have a1: "q - length els - length flat = q - length (flat @ els)" by simp
  have a2: "used + length els + length flat = used + length (flat @ els)" by simp
  have c': "st' objv = take (q - length (flat @ els)) cells @ map Some (flat @ els) @ drop q cells"
    using t by (simp add: c d add.commute)
  have "Tcl_EvalEx_expand_words env expnd copy objv (Suc w) (int q - 1) used st
            = Some (int (q - length (flat @ els)) - 1, used + length (flat @ els), st')"
    unfolding step r a1 a2 ..
  with c' show ?case unfolding flat' cells_def by blast
qed


lemma subst_words_step_plain:
  assumes "tokenIdx s < length toks"
    and "call_ext (TclSubstTokens env (take (numComponents (toks ! tokenIdx s))
                                          (drop (tokenIdx s + 1) toks))) (interp s)
           = (TCL_OK, iPtr1)"
    and "objectsUsed s < length (store s objv)" "objectsUsed s < length (expand s)"
    and "tokenType (toks ! tokenIdx s) \<noteq> TCL_TOKEN_EXPAND_WORD"
  shows "Tcl_EvalEx_subst_words env toks objv (Suc k) s
         = Tcl_EvalEx_subst_words env toks objv k
             (s\<lparr>store := (store s)(objv := (store s objv)[objectsUsed s := Some (result iPtr1)]),
                expand := (expand s)[objectsUsed s := Some 0],
                objectsNeeded := objectsNeeded s + 1,
                interp := iPtr1,
                objectsUsed := objectsUsed s + 1,
                tokenIdx := tokenIdx s + (numComponents (toks ! tokenIdx s) + 1)\<rparr>)"
proof -
  have a: "\<not> length toks \<le> tokenIdx s" using assms(1) by simp
  have b: "\<not> (length (store s objv) \<le> objectsUsed s \<or> length (expand s) \<le> objectsUsed s)"
    using assms(3,4) by simp
  show ?thesis
    unfolding Tcl_EvalEx_subst_words.simps Let_def
    by (simp only: a b assms(2) assms(5) if_False if_True prod.case simp_thms)
qed

lemma subst_words_step_expand:
  assumes "tokenIdx s < length toks"
    and "call_ext (TclSubstTokens env (take (numComponents (toks ! tokenIdx s))
                                          (drop (tokenIdx s + 1) toks))) (interp s)
           = (TCL_OK, iPtr1)"
    and "objectsUsed s < length (store s objv)" "objectsUsed s < length (expand s)"
    and "tokenType (toks ! tokenIdx s) = TCL_TOKEN_EXPAND_WORD"
    and "Tcl_ListObjGetElements env (result iPtr1) = Some els"
  shows "Tcl_EvalEx_subst_words env toks objv (Suc k) s
         = Tcl_EvalEx_subst_words env toks objv k
             (s\<lparr>store := (store s)(objv := (store s objv)[objectsUsed s := Some (result iPtr1)]),
                expandRequested := 1,
                expand := (expand s)[objectsUsed s := Some 1],
                objectsNeeded := objectsNeeded s + (if length els \<noteq> 0 then length els else 1),
                interp := iPtr1,
                objectsUsed := objectsUsed s + 1,
                tokenIdx := tokenIdx s + (numComponents (toks ! tokenIdx s) + 1)\<rparr>)"
proof -
  have a: "\<not> length toks \<le> tokenIdx s" using assms(1) by simp
  have b: "\<not> (length (store s objv) \<le> objectsUsed s \<or> length (expand s) \<le> objectsUsed s)"
    using assms(3,4) by simp
  have l: "Tcl_ListObjLength env (result iPtr1) iPtr1 = (TCL_OK, length els, iPtr1)"
    by (simp add: Tcl_ListObjLength_def assms(6))
  have n: "TCL_OK \<noteq> TCL_ERROR" by (simp add: TCL_OK_def TCL_ERROR_def)
  show ?thesis
    unfolding Tcl_EvalEx_subst_words.simps Let_def
    by (simp only: a b l n assms(2) assms(5) if_False if_True prod.case simp_thms)
qed


lemma word_values_Suc:
  assumes "word_values env toks (Suc k) idx iPtr = Some (tvs, iPtr')"
  shows "\<exists>iPtr1 tvs'.
           idx < length toks
         \<and> call_ext (TclSubstTokens env (take (numComponents (toks ! idx)) (drop (idx + 1) toks)))
              iPtr = (TCL_OK, iPtr1)
         \<and> (tokenType (toks ! idx) = TCL_TOKEN_EXPAND_WORD
              \<longrightarrow> Tcl_ListObjGetElements env (result iPtr1) \<noteq> None)
         \<and> word_values env toks k (idx + (numComponents (toks ! idx) + 1)) iPtr1
              = Some (tvs', iPtr')
         \<and> tvs = (tokenType (toks ! idx), result iPtr1) # tvs'"
proof -
  obtain code iPtr1 where
    ce: "call_ext (TclSubstTokens env (take (numComponents (toks ! idx)) (drop (idx + 1) toks)))
           iPtr = (code, iPtr1)"
    by (metis prod.exhaust)
  show ?thesis
    using assms ce
    by (auto simp: Let_def split: if_splits option.splits)
qed

lemma word_values_lists:
  "word_values env toks k idx iPtr = Some (tvs, iPtr') \<Longrightarrow>
   length tvs = k
   \<and> (\<forall>tv\<in>set tvs. fst tv = TCL_TOKEN_EXPAND_WORD
         \<longrightarrow> Tcl_ListObjGetElements env (snd tv) \<noteq> None)"
proof (induction k arbitrary: idx iPtr tvs)
  case 0
  then show ?case by simp
next
  case (Suc k)
  from word_values_Suc [OF Suc.prems] obtain iPtr1 tvs' where
    l: "tokenType (toks ! idx) = TCL_TOKEN_EXPAND_WORD
              \<longrightarrow> Tcl_ListObjGetElements env (result iPtr1) \<noteq> None"
    and r: "word_values env toks k (idx + (numComponents (toks ! idx) + 1)) iPtr1
              = Some (tvs', iPtr')"
    and t: "tvs = (tokenType (toks ! idx), result iPtr1) # tvs'"
    by blast
  from Suc.IH [OF r] l show ?case by (simp add: t)
qed

lemma subst_words_ok:
  assumes "word_values env toks k idx iPtr = Some (tvs, iPtr')"
    and "tokenIdx s = idx" "interp s = iPtr"
    and "objectsUsed s + k \<le> length (store s objv)"
    and "objectsUsed s + k \<le> length (expand s)"
  shows "\<exists>s'. Tcl_EvalEx_subst_words env toks objv k s = Some (TCL_OK, s')
     \<and> interp s' = iPtr' \<and> objectsUsed s' = objectsUsed s + k
     \<and> objectsNeeded s' = objectsNeeded s + sum_list (map (word_cells env) tvs)
     \<and> store s' objv = take (objectsUsed s) (store s objv) @ map (\<lambda>tv. Some (snd tv)) tvs
                          @ drop (objectsUsed s + k) (store s objv)
     \<and> (\<forall>a. a \<noteq> objv \<longrightarrow> store s' a = store s a)
     \<and> expand s' = take (objectsUsed s) (expand s) @ map expand_flag tvs
                      @ drop (objectsUsed s + k) (expand s)
     \<and> ((expandRequested s' \<noteq> 0)
          = (expandRequested s \<noteq> 0 \<or> (\<exists>tv\<in>set tvs. fst tv = TCL_TOKEN_EXPAND_WORD)))"
  using assms
proof (induction k arbitrary: s idx iPtr tvs)
  case 0
  then show ?case by simp
next
  case (Suc k)
  define tok where "tok = toks ! idx"
  define u where "u = objectsUsed s"
  from word_values_Suc [OF Suc.prems(1)] obtain iPtr1 tvs' where
    i: "idx < length toks"
    and ce: "call_ext (TclSubstTokens env (take (numComponents (toks ! idx))
                          (drop (idx + 1) toks))) iPtr = (TCL_OK, iPtr1)"
    and l: "tokenType (toks ! idx) = TCL_TOKEN_EXPAND_WORD
              \<longrightarrow> Tcl_ListObjGetElements env (result iPtr1) \<noteq> None"
    and r: "word_values env toks k (idx + (numComponents (toks ! idx) + 1)) iPtr1
              = Some (tvs', iPtr')"
    and t: "tvs = (tokenType (toks ! idx), result iPtr1) # tvs'"
    by blast
  define tv where "tv = (tokenType (toks ! idx), result iPtr1)"
  have i': "tokenIdx s < length toks" using i Suc.prems(2) by simp
  have ce': "call_ext (TclSubstTokens env (take (numComponents (toks ! tokenIdx s))
                          (drop (tokenIdx s + 1) toks))) (interp s) = (TCL_OK, iPtr1)"
    using ce Suc.prems(2,3) by simp
  have us: "objectsUsed s < length (store s objv)" using Suc.prems(4) by simp
  have ue: "objectsUsed s < length (expand s)" using Suc.prems(5) by simp
  have "\<exists>s2. Tcl_EvalEx_subst_words env toks objv (Suc k) s
                 = Tcl_EvalEx_subst_words env toks objv k s2
          \<and> tokenIdx s2 = idx + (numComponents (toks ! idx) + 1)
          \<and> interp s2 = iPtr1
          \<and> objectsUsed s2 = u + 1
          \<and> objectsNeeded s2 = objectsNeeded s + word_cells env tv
          \<and> store s2 = (store s)(objv := (store s objv)[u := Some (snd tv)])
          \<and> expand s2 = (expand s)[u := expand_flag tv]
          \<and> ((expandRequested s2 \<noteq> 0)
               = (expandRequested s \<noteq> 0 \<or> fst tv = TCL_TOKEN_EXPAND_WORD))"
  proof (cases "tokenType (toks ! idx) = TCL_TOKEN_EXPAND_WORD")
    case True
    with l obtain els where els: "Tcl_ListObjGetElements env (result iPtr1) = Some els"
      by blast
    have ty: "tokenType (toks ! tokenIdx s) = TCL_TOKEN_EXPAND_WORD"
      using True Suc.prems(2) by simp
    have wc: "word_cells env tv = (if length els \<noteq> 0 then length els else 1)"
      using True els by (simp add: word_cells_def word_slots_def tv_def the_default_def)
    show ?thesis
      unfolding subst_words_step_expand [OF i' ce' us ue ty els]
      apply (rule exI)
      apply (intro conjI)
             apply (rule refl)
      using True Suc.prems(2) wc
            apply (simp_all add: u_def tv_def expand_flag_def)
      done
  next
    case False
    have ty: "tokenType (toks ! tokenIdx s) \<noteq> TCL_TOKEN_EXPAND_WORD"
      using False Suc.prems(2) by simp
    have wc: "word_cells env tv = 1"
      using False by (simp add: word_cells_def word_slots_def tv_def)
    show ?thesis
      unfolding subst_words_step_plain [OF i' ce' us ue ty]
      apply (rule exI)
      apply (intro conjI)
             apply (rule refl)
      using False Suc.prems(2) wc
            apply (simp_all add: u_def tv_def expand_flag_def)
      done
  qed
  then obtain s2 where
    step: "Tcl_EvalEx_subst_words env toks objv (Suc k) s
                 = Tcl_EvalEx_subst_words env toks objv k s2"
    and p1: "tokenIdx s2 = idx + (numComponents (toks ! idx) + 1)"
    and p2: "interp s2 = iPtr1"
    and p3: "objectsUsed s2 = u + 1"
    and p4: "objectsNeeded s2 = objectsNeeded s + word_cells env tv"
    and p5: "store s2 = (store s)(objv := (store s objv)[u := Some (snd tv)])"
    and p6: "expand s2 = (expand s)[u := expand_flag tv]"
    and p7: "(expandRequested s2 \<noteq> 0)
               = (expandRequested s \<noteq> 0 \<or> fst tv = TCL_TOKEN_EXPAND_WORD)"
    by blast
  have b1: "objectsUsed s2 + k \<le> length (store s2 objv)"
    using Suc.prems(4) by (simp add: p3 p5 u_def)
  have b2: "objectsUsed s2 + k \<le> length (expand s2)"
    using Suc.prems(5) by (simp add: p3 p6 u_def)
  from Suc.IH [OF r p1 p2 b1 b2] obtain s' where
    q0: "Tcl_EvalEx_subst_words env toks objv k s2 = Some (TCL_OK, s')"
    and q1: "interp s' = iPtr'"
    and q2: "objectsUsed s' = objectsUsed s2 + k"
    and q3: "objectsNeeded s' = objectsNeeded s2 + sum_list (map (word_cells env) tvs')"
    and q4: "store s' objv = take (objectsUsed s2) (store s2 objv)
                          @ map (\<lambda>tv. Some (snd tv)) tvs'
                          @ drop (objectsUsed s2 + k) (store s2 objv)"
    and q5: "\<forall>a. a \<noteq> objv \<longrightarrow> store s' a = store s2 a"
    and q6: "expand s' = take (objectsUsed s2) (expand s2) @ map expand_flag tvs'
                      @ drop (objectsUsed s2 + k) (expand s2)"
    and q7: "(expandRequested s' \<noteq> 0)
          = (expandRequested s2 \<noteq> 0 \<or> (\<exists>tv\<in>set tvs'. fst tv = TCL_TOKEN_EXPAND_WORD))"
    by blast
  have tvs: "tvs = tv # tvs'" by (simp add: t tv_def)
  have ul: "u < length (store s objv)" "u < length (expand s)"
    using us ue by (simp_all add: u_def)
  have tk: "\<And>xs (x::'b). u < length xs \<Longrightarrow> take (Suc u) (xs[u := x]) = take u xs @ [x]"
    by (simp add: take_Suc_conv_app_nth)
  have r4: "store s' objv = take u (store s objv) @ map (\<lambda>tv. Some (snd tv)) tvs
                          @ drop (u + Suc k) (store s objv)"
    using ul(1) by (simp add: q4 p3 p5 tvs tk)
  have r6: "expand s' = take u (expand s) @ map expand_flag tvs @ drop (u + Suc k) (expand s)"
    using ul(2) by (simp add: q6 p3 p6 tvs tk)
  have r5: "\<forall>a. a \<noteq> objv \<longrightarrow> store s' a = store s a"
    using q5 by (simp add: p5)
  have r7: "(expandRequested s' \<noteq> 0)
          = (expandRequested s \<noteq> 0 \<or> (\<exists>tv\<in>set tvs. fst tv = TCL_TOKEN_EXPAND_WORD))"
    unfolding q7 p7 tvs by auto
  have r3: "objectsNeeded s' = objectsNeeded s + sum_list (map (word_cells env) tvs)"
    by (simp add: q3 p4 tvs)
  have r2: "objectsUsed s' = objectsUsed s + Suc k" by (simp add: q2 p3 u_def)
  have r0: "Tcl_EvalEx_subst_words env toks objv (Suc k) s = Some (TCL_OK, s')"
    unfolding step by (rule q0)
  show ?case
    using r0 q1 r2 r3 r4 r5 r6 r7 unfolding u_def by blast
qed


lemma read_objv_ok:
  "st objv = pre @ map Some xs @ post \<Longrightarrow>
   read_objv st objv (length pre) (length xs) = Some xs"
  by (simp add: read_objv_def those_map_Some)

lemma no_expansion_slots:
  "\<forall>tv\<in>set tvs. fst tv \<noteq> TCL_TOKEN_EXPAND_WORD \<Longrightarrow>
   concat (map (word_slots env) tvs) = map snd tvs"
  by (induction tvs) (simp_all add: word_slots_def)

lemma expansion_ok:
  assumes n: "length tvs = numWords parse"
    and lists: "\<forall>tv\<in>set tvs. fst tv = TCL_TOKEN_EXPAND_WORD
                  \<longrightarrow> Tcl_ListObjGetElements env (snd tv) \<noteq> None"
    and used: "objectsUsed s = numWords parse"
    and needed: "objectsNeeded s = sum_list (map (word_cells env) tvs)"
    and cells: "store s objvSpace = map (\<lambda>tv. Some (snd tv)) tvs @ post"
    and flags: "expand s = map expand_flag tvs @ epost"
    and req: "(expandRequested s \<noteq> 0) = (\<exists>tv\<in>set tvs. fst tv = TCL_TOKEN_EXPAND_WORD)"
    and space: "objvSpace \<noteq> ExpandedObjArray"
    and static: "numWords parse \<le> NUM_STATIC_OBJS \<longrightarrow>
                   NUM_STATIC_OBJS \<le> length (store s objvSpace)"
  shows "Tcl_EvalEx_expansion env parse objvSpace s = Some (concat (map (word_slots env) tvs))"
proof (cases "expandRequested s \<noteq> 0")
  case False
  then have none: "\<forall>tv\<in>set tvs. fst tv \<noteq> TCL_TOKEN_EXPAND_WORD" using req by simp
  have c: "store s objvSpace = [] @ map Some (map snd tvs) @ post"
    by (simp add: cells comp_def)
  have "read_objv (store s) objvSpace (length ([]::Tcl_Obj option list)) (length (map snd tvs))
          = Some (map snd tvs)"
    by (rule read_objv_ok [where st = "store s" and objv = objvSpace and pre = "[]"
          and xs = "map snd tvs" and post = post, OF c])
  then have "read_objv (store s) objvSpace 0 (objectsUsed s) = Some (map snd tvs)"
    by (simp add: used n)
  then show ?thesis
    using False by (simp add: Tcl_EvalEx_expansion_def no_expansion_slots [OF none])
next
  case True
  define q where "q = sum_list (map (word_cells env) tvs)"
  define flat where "flat = concat (map (word_slots env) tvs)"
  define resize where
    "resize = (NUM_STATIC_OBJS < numWords parse \<or> NUM_STATIC_OBJS < objectsNeeded s)"
  define objv where "objv = (if resize then ExpandedObjArray else objvSpace)"
  define st1 where "st1 = (if resize
                           then (store s)(ExpandedObjArray := replicate (objectsNeeded s) None)
                           else store s)"
  have copy1: "st1 objvSpace = store s objvSpace"
    using space by (simp add: st1_def)
  have ql: "q \<le> length (st1 objv)"
  proof (cases resize)
    case True
    then show ?thesis by (simp add: st1_def objv_def needed q_def)
  next
    case False
    then have "numWords parse \<le> NUM_STATIC_OBJS" "q \<le> NUM_STATIC_OBJS"
      by (simp_all add: resize_def needed q_def)
    with static have "q \<le> length (store s objvSpace)" by simp
    with False show ?thesis by (simp add: st1_def objv_def)
  qed
  have tk: "take (numWords parse) tvs = tvs" using n by simp
  have "\<exists>st'. Tcl_EvalEx_expand_words env (expand s) objvSpace objv (numWords parse)
                 (int q - 1) 0 st1
            = Some (int (q - length (concat (map (word_slots env)
                                               (take (numWords parse) tvs)))) - 1,
                    0 + length (concat (map (word_slots env) (take (numWords parse) tvs))),
                    st')
          \<and> st' objv = take (q - length (concat (map (word_slots env)
                                                   (take (numWords parse) tvs)))) (st1 objv)
                          @ map Some (concat (map (word_slots env) (take (numWords parse) tvs)))
                          @ drop q (st1 objv)"
  proof (rule expand_words_ok)
    show "numWords parse \<le> length tvs" using n by simp
    show "\<forall>i<numWords parse. i < length (expand s) \<and> expand s ! i = expand_flag (tvs ! i)"
      using n by (simp add: flags nth_append)
    show "\<forall>i<numWords parse. i < length (st1 objvSpace)
                \<and> st1 objvSpace ! i = Some (snd (tvs ! i))"
      using n by (simp add: copy1 cells nth_append)
    show "\<forall>i<numWords parse. fst (tvs ! i) = TCL_TOKEN_EXPAND_WORD
                  \<longrightarrow> Tcl_ListObjGetElements env (snd (tvs ! i)) \<noteq> None"
      using lists n by simp
    show "sum_list (map (word_cells env) (take (numWords parse) tvs)) \<le> q"
      by (simp add: tk q_def)
    show "q \<le> length (st1 objv)" by (rule ql)
  qed
  then obtain st' where
    r: "Tcl_EvalEx_expand_words env (expand s) objvSpace objv (numWords parse) (int q - 1) 0 st1
          = Some (int (q - length flat) - 1, length flat, st')"
    and c: "st' objv = take (q - length flat) (st1 objv) @ map Some flat @ drop q (st1 objv)"
    unfolding tk flat_def by auto
  have fq: "length flat \<le> q" unfolding flat_def q_def by (rule flat_le_cells)
  have lt: "length (take (q - length flat) (st1 objv)) = q - length flat"
    using ql by simp
  have rd: "read_objv st' objv (q - length flat) (length flat) = Some flat"
    using read_objv_ok [where st = st' and objv = objv
        and pre = "take (q - length flat) (st1 objv)" and xs = flat
        and post = "drop q (st1 objv)", OF c] unfolding lt .
  have i1: "\<not> (int (q - length flat) - 1 + 1 < 0)" by simp
  have i2: "nat (int (q - length flat) - 1 + 1) = q - length flat" by simp
  have "Tcl_EvalEx_expansion env parse objvSpace s
          = (case Tcl_EvalEx_expand_words env (expand s) objvSpace objv (numWords parse)
                    (int q - 1) 0 st1 of
               None \<Rightarrow> None
             | Some (objIdx1, used, st2) \<Rightarrow>
                 if objIdx1 + 1 < 0 then None
                 else read_objv st2 objv (nat (objIdx1 + 1)) used)"
    unfolding Tcl_EvalEx_expansion_def Let_def resize_def objv_def st1_def needed q_def
    by (simp only: True simp_thms if_True)
  also have "\<dots> = Some flat"
    unfolding r by (simp only: option.case prod.case i1 i2 if_False rd)
  finally show ?thesis by (simp add: flat_def)
qed


text \<open>
  C2, as stated, fails for the empty list. In the command \<^verbatim>\<open>exec {*}{}\<close> the second
  word is marked for expansion and its value is a valid list with no element. The
  vector built for the command is the single word \<open>exec\<close>, and the log shows the
  command procedure called with that vector: the empty expansion contributes no
  argument, not one.
\<close>

theorem Tcl_EvalEx_empty_expansion_counterexample:
  "tokenType (tokenPtr parse_empty_expansion ! 2) = TCL_TOKEN_EXPAND_WORD
   \<and> Tcl_ListObjGetElements env0 [] = Some []
   \<and> map_option (fst \<circ> snd)
       (Tcl_EvalEx_words env0 parse_empty_expansion expandStatic0 store0 interp1)
       = Some [''exec'']
   \<and> map_option (evlog \<circ> snd)
       (Tcl_EvalEx_command 3 env0 parse_empty_expansion expandStatic0 store0 interp1)
       = Some [EvPass, EvGetCommand ''exec'', EvObjProc 1 [''exec'']]"
  by code_simp


text \<open>
  C2, amended. Let all the words of a command be substituted successfully, every word
  marked for expansion having a valid list as its value. Then the words are built with
  the code \<^verbatim>\<open>TCL_OK\<close>, and the vector passed to the dispatcher is the concatenation,
  in the order of the words, of the elements of the list for a word marked for
  expansion (all \<open>n\<close> of them, none if \<open>n = 0\<close>) and of the value itself for any other
  word; this holds whether the expansion happens in place in \<^verbatim>\<open>staticObjArray\<close> or
  into a new array. Only the number of cells provided for the vector,
  \<^verbatim>\<open>objectsNeeded\<close>, counts one cell for an empty expansion: it is the sum over the
  words of \<open>n\<close>, or 1 where \<open>n = 0\<close>, and 1 for a word that is not expanded. The command
  is then run by the dispatcher on that vector, one level deeper.
\<close>

theorem Tcl_EvalEx_words_expansion:
  assumes wv: "word_values env (tokenPtr parse) (numWords parse) 0 iPtr = Some (tvs, iPtr')"
    and static: "length (st StaticObjArray) = NUM_STATIC_OBJS"
    and flags: "length expandStatic = NUM_STATIC_OBJS"
  shows "Tcl_EvalEx_words env parse expandStatic st iPtr
           = Some (TCL_OK, concat (map (word_slots env) tvs),
                   sum_list (map (word_cells env) tvs), iPtr')
         \<and> Tcl_EvalEx_command fuel env parse expandStatic st iPtr
           = (case TclEvalObjvInternal fuel env (concat (map (word_slots env) tvs))
                     (Some (take (commandSize parse) (commandStart parse))) 0
                     (iPtr'\<lparr>numLevels := numLevels iPtr' + 1\<rparr>) of
                None \<Rightarrow> None
              | Some (code, iPtr2) \<Rightarrow> Some (code, iPtr2\<lparr>numLevels := numLevels iPtr2 - 1\<rparr>))"
proof -
  define big where "big = (NUM_STATIC_OBJS < numWords parse)"
  define expand0 where
    "expand0 = (if big then replicate (numWords parse) None else expandStatic)"
  define objvSpace where "objvSpace = (if big then WordsObjArray else StaticObjArray)"
  define st0 where
    "st0 = (if big then st(WordsObjArray := replicate (numWords parse) None) else st)"
  define s0 where
    "s0 = \<lparr>objectsUsed = 0, tokenIdx = 0, objectsNeeded = 0, expandRequested = 0,
           expand = expand0, store = st0, interp = iPtr\<rparr>"
  have W: "Tcl_EvalEx_words env parse expandStatic st iPtr
     = (case Tcl_EvalEx_subst_words env (tokenPtr parse) objvSpace (numWords parse) s0 of
            None \<Rightarrow> None
          | Some (code, s) \<Rightarrow>
              if code \<noteq> TCL_OK then Some (code, [], objectsNeeded s, interp s)
              else
                (case Tcl_EvalEx_expansion env parse objvSpace s of
                   None \<Rightarrow> None
                 | Some argv \<Rightarrow> Some (TCL_OK, argv, objectsNeeded s, interp s)))"
    unfolding Tcl_EvalEx_words_def Let_def big_def expand0_def objvSpace_def st0_def s0_def ..
  have l1: "numWords parse \<le> length (st0 objvSpace)"
    by (cases big) (simp_all add: st0_def objvSpace_def static big_def)
  have l2: "numWords parse \<le> length expand0"
    by (cases big) (simp_all add: expand0_def flags big_def)
  have p: "tokenIdx s0 = 0" "interp s0 = iPtr"
    "objectsUsed s0 + numWords parse \<le> length (store s0 objvSpace)"
    "objectsUsed s0 + numWords parse \<le> length (expand s0)"
    using l1 l2 by (simp_all add: s0_def)
  from subst_words_ok [OF wv p] obtain s' where
    q0: "Tcl_EvalEx_subst_words env (tokenPtr parse) objvSpace (numWords parse) s0
           = Some (TCL_OK, s')"
    and q1: "interp s' = iPtr'"
    and q2: "objectsUsed s' = objectsUsed s0 + numWords parse"
    and q3: "objectsNeeded s' = objectsNeeded s0 + sum_list (map (word_cells env) tvs)"
    and q4: "store s' objvSpace = take (objectsUsed s0) (store s0 objvSpace)
                          @ map (\<lambda>tv. Some (snd tv)) tvs
                          @ drop (objectsUsed s0 + numWords parse) (store s0 objvSpace)"
    and q6: "expand s' = take (objectsUsed s0) (expand s0) @ map expand_flag tvs
                      @ drop (objectsUsed s0 + numWords parse) (expand s0)"
    and q7: "(expandRequested s' \<noteq> 0)
          = (expandRequested s0 \<noteq> 0 \<or> (\<exists>tv\<in>set tvs. fst tv = TCL_TOKEN_EXPAND_WORD))"
    by blast
  from word_values_lists [OF wv] have
    n: "length tvs = numWords parse"
    and lists: "\<forall>tv\<in>set tvs. fst tv = TCL_TOKEN_EXPAND_WORD
                  \<longrightarrow> Tcl_ListObjGetElements env (snd tv) \<noteq> None"
    by simp_all
  have used: "objectsUsed s' = numWords parse" by (simp add: q2 s0_def)
  have needed: "objectsNeeded s' = sum_list (map (word_cells env) tvs)"
    by (simp add: q3 s0_def)
  have cells: "store s' objvSpace = map (\<lambda>tv. Some (snd tv)) tvs
                                      @ drop (numWords parse) (st0 objvSpace)"
    by (simp add: q4 s0_def)
  have fl: "expand s' = map expand_flag tvs @ drop (numWords parse) expand0"
    by (simp add: q6 s0_def)
  have req: "(expandRequested s' \<noteq> 0) = (\<exists>tv\<in>set tvs. fst tv = TCL_TOKEN_EXPAND_WORD)"
    by (simp add: q7 s0_def)
  have space: "objvSpace \<noteq> ExpandedObjArray" by (simp add: objvSpace_def)
  have st: "numWords parse \<le> NUM_STATIC_OBJS \<longrightarrow>
              NUM_STATIC_OBJS \<le> length (store s' objvSpace)"
  proof
    assume a: "numWords parse \<le> NUM_STATIC_OBJS"
    then have "\<not> big" by (simp add: big_def)
    then have "length (st0 objvSpace) = NUM_STATIC_OBJS"
      by (simp add: st0_def objvSpace_def static)
    then show "NUM_STATIC_OBJS \<le> length (store s' objvSpace)"
      using a n by (simp add: cells)
  qed
  have E: "Tcl_EvalEx_expansion env parse objvSpace s'
             = Some (concat (map (word_slots env) tvs))"
    by (rule expansion_ok [OF n lists used needed cells fl req space st])
  have R: "Tcl_EvalEx_words env parse expandStatic st iPtr
           = Some (TCL_OK, concat (map (word_slots env) tvs),
                   sum_list (map (word_cells env) tvs), iPtr')"
    unfolding W q0 by (simp add: E needed q1)
  show ?thesis
    unfolding Tcl_EvalEx_command_def R by simp
qed

theorem Tcl_EvalEx_words_expansion_witness:
  "Tcl_EvalEx_words env0 parse_expansions expandStatic0 store0 interp1
     = Some (TCL_OK, [''exec'', ''a'', ''b'', ''c''], 5, interp1\<lparr>result := ''c''\<rparr>)
   \<and> map_option (evlog \<circ> snd)
       (Tcl_EvalEx_command 3 env0 parse_expansions expandStatic0 store0 interp1)
       = Some [EvPass, EvGetCommand ''exec'', EvObjProc 1 [''exec'', ''a'', ''b'', ''c'']]"
proof -
  define tvs where "tvs = [(TCL_TOKEN_SIMPLE_WORD, ''exec''), (TCL_TOKEN_EXPAND_WORD, ''a b''),
                          (TCL_TOKEN_EXPAND_WORD, []), (TCL_TOKEN_SIMPLE_WORD, ''c'')]"
  have wv: "word_values env0 (tokenPtr parse_expansions) (numWords parse_expansions) 0 interp1
              = Some (tvs, interp1\<lparr>result := ''c''\<rparr>)"
    unfolding tvs_def
    by (simp add: parse_expansions_def word_tokens_def env0_def call_ext_def Let_def
        eval_nat_numeral TCL_TOKEN_SIMPLE_WORD_def TCL_TOKEN_EXPAND_WORD_def
        TCL_TOKEN_TEXT_def TCL_OK_def interp1_def interp0_def)
  have s: "length (store0 StaticObjArray) = NUM_STATIC_OBJS"
    by (simp add: store0_def)
  have f: "length expandStatic0 = NUM_STATIC_OBJS"
    by (simp add: expandStatic0_def)
  have slots: "concat (map (word_slots env0) tvs) = [''exec'', ''a'', ''b'', ''c'']"
    unfolding tvs_def by code_simp
  have cells: "sum_list (map (word_cells env0) tvs) = 5"
    unfolding tvs_def by code_simp
  have run: "map_option (evlog \<circ> snd)
               (case TclEvalObjvInternal 3 env0 [''exec'', ''a'', ''b'', ''c'']
                     (Some (take (commandSize parse_expansions) (commandStart parse_expansions)))
                     0 (interp1\<lparr>result := ''c'', numLevels := numLevels interp1 + 1\<rparr>) of
                None \<Rightarrow> None
              | Some (code, iPtr2) \<Rightarrow> Some (code, iPtr2\<lparr>numLevels := numLevels iPtr2 - 1\<rparr>))
             = Some [EvPass, EvGetCommand ''exec'', EvObjProc 1 [''exec'', ''a'', ''b'', ''c'']]"
    by code_simp
  from Tcl_EvalEx_words_expansion [where st = store0 and fuel = 3, OF wv s f] show ?thesis
    unfolding slots cells using run by simp
qed


end
